theory Spec2Isabelle
  imports Main
begin

section \<open>The decimal library as the program uses it\<close>

text \<open>
  \<^verbatim>\<open>bank_account.py\<close> stores money as Python \<^verbatim>\<open>decimal.Decimal\<close> values and never
  changes the thread's arithmetic context, so every operation runs under the default
  context: 28 significant digits, \<^verbatim>\<open>ROUND_HALF_EVEN\<close>, exponents between -999999 and
  999999, and the signals \<^verbatim>\<open>InvalidOperation\<close>, \<^verbatim>\<open>DivisionByZero\<close> and \<^verbatim>\<open>Overflow\<close>
  raised as exceptions. A finite decimal is a sign, a coefficient and an exponent, with value
  \<open>(-1)^sign * coefficient * 10^exponent\<close>; the payload and the sign of a NaN do not
  influence any operation of the program and are left out.
\<close>

datatype decimal = Finite bool nat int | Infinity bool | NaN | SNaN

datatype rounding = ROUND_HALF_UP | ROUND_HALF_EVEN

datatype error = ValueError string | TypeError string | InvalidOperation | Overflow

definition prec :: int where "prec = 28"
definition Emax :: int where "Emax = 999999"
definition Emin :: int where "Emin = - 999999"
definition Etiny :: int where "Etiny = Emin - prec + 1"
definition Etop :: int where "Etop = Emax - prec + 1"

text \<open>The number of digits of a coefficient as Python prints it (\<open>0\<close> has one digit).\<close>

fun ndigits :: "nat \<Rightarrow> nat" where
  "ndigits n = (if n < 10 then 1 else Suc (ndigits (n div 10)))"

declare ndigits.simps [simp del]

text \<open>
  Dropping the last \<open>k\<close> digits of a coefficient. Half-up looks at the first dropped digit
  only; half-even rounds an exact half to the even neighbour.
\<close>

definition round_coeff :: "rounding \<Rightarrow> nat \<Rightarrow> nat \<Rightarrow> nat" where
  "round_coeff r c k =
     (if k = 0 then c
      else let q = c div 10 ^ k; m = c mod 10 ^ k; half = 5 * 10 ^ (k - 1)
           in case r of
                ROUND_HALF_UP \<Rightarrow> (if half \<le> m then q + 1 else q)
              | ROUND_HALF_EVEN \<Rightarrow> (if half < m \<or> (m = half \<and> odd q) then q + 1 else q))"

text \<open>\<^verbatim>\<open>Decimal._rescale\<close>: the same number at exponent \<open>ex\<close>, padded or rounded.\<close>

definition rescale :: "bool \<Rightarrow> nat \<Rightarrow> int \<Rightarrow> int \<Rightarrow> rounding \<Rightarrow> decimal" where
  "rescale s c e ex r =
     (if c = 0 then Finite s 0 ex
      else if ex \<le> e then Finite s (c * 10 ^ nat (e - ex)) ex
      else Finite s (round_coeff r c (nat (ex - e))) ex)"

text \<open>
  \<^verbatim>\<open>Decimal._fix\<close>: fit a finite result into the context. A coefficient of more than 28
  digits is rounded half-even, a rounding carry drops one more digit, and a result above
  \<open>Emax\<close> raises \<^verbatim>\<open>Overflow\<close>.
\<close>

definition fix_context :: "bool \<Rightarrow> nat \<Rightarrow> int \<Rightarrow> error + decimal" where
  "fix_context s c e =
     (if c = 0 then Inr (Finite s 0 (min (max e Etiny) Emax))
      else let exp_min0 = int (ndigits c) + e - prec
           in if Etop < exp_min0 then Inl Overflow
              else let exp_min = max exp_min0 Etiny
                   in if e < exp_min
                      then let c1 = round_coeff ROUND_HALF_EVEN c (nat (exp_min - e))
                           in if prec < int (ndigits c1)
                              then (if Etop < exp_min + 1 then Inl Overflow
                                    else Inr (Finite s (c1 div 10) (exp_min + 1)))
                              else Inr (Finite s c1 exp_min)
                      else Inr (Finite s c e))"

text \<open>
  \<^verbatim>\<open>Decimal.quantize(exp, rounding)\<close>. A signalling NaN raises, a quiet NaN is returned
  as it is, an infinity on one side raises, and a finite result must fit into 28 digits.
\<close>

fun quantize :: "decimal \<Rightarrow> decimal \<Rightarrow> rounding \<Rightarrow> error + decimal" where
  "quantize SNaN _ _ = Inl InvalidOperation"
| "quantize _ SNaN _ = Inl InvalidOperation"
| "quantize NaN _ _ = Inr NaN"
| "quantize _ NaN _ = Inr NaN"
| "quantize (Infinity s) (Infinity _) _ = Inr (Infinity s)"
| "quantize (Infinity _) (Finite _ _ _) _ = Inl InvalidOperation"
| "quantize (Finite _ _ _) (Infinity _) _ = Inl InvalidOperation"
| "quantize (Finite s c e) (Finite _ _ ex) r =
     (if \<not> (Etiny \<le> ex \<and> ex \<le> Emax) then Inl InvalidOperation
      else if c = 0 then fix_context s 0 ex
      else let adjusted = int (ndigits c) + e - 1
           in if Emax < adjusted then Inl InvalidOperation
              else if prec < adjusted - ex + 1 then Inl InvalidOperation
              else (case rescale s c e ex r of
                      Finite s' c' e' \<Rightarrow>
                        if Emax < int (ndigits c') + e' - 1 then Inl InvalidOperation
                        else if prec < int (ndigits c') then Inl InvalidOperation
                        else fix_context s' c' e'
                    | _ \<Rightarrow> Inl InvalidOperation))"

text \<open>
  Comparison. \<open>signed\<close> is the value of a finite decimal in units of \<open>10^m\<close>, for an
  exponent \<open>m\<close> not above its own; \<open>dec_cmp\<close> is \<^verbatim>\<open>Decimal._cmp\<close> on operands that are
  not NaN. The operators \<^verbatim>\<open><\<close>, \<^verbatim>\<open><=\<close> and \<^verbatim>\<open>>\<close> raise \<^verbatim>\<open>InvalidOperation\<close> when an
  operand is a NaN.
\<close>

definition signed :: "bool \<Rightarrow> nat \<Rightarrow> int \<Rightarrow> int \<Rightarrow> int" where
  "signed s c e m = (if s then - 1 else 1) * int c * 10 ^ nat (e - m)"

fun dec_cmp :: "decimal \<Rightarrow> decimal \<Rightarrow> int" where
  "dec_cmp (Finite s1 c1 e1) (Finite s2 c2 e2) =
     (let m = min e1 e2; x = signed s1 c1 e1 m; y = signed s2 c2 e2 m
      in if x < y then - 1 else if x = y then 0 else 1)"
| "dec_cmp (Infinity s1) (Infinity s2) = (if s1 = s2 then 0 else if s1 then - 1 else 1)"
| "dec_cmp (Infinity s1) _ = (if s1 then - 1 else 1)"
| "dec_cmp _ (Infinity s2) = (if s2 then 1 else - 1)"
| "dec_cmp _ _ = 0"

fun is_nan :: "decimal \<Rightarrow> bool" where
  "is_nan NaN = True"
| "is_nan SNaN = True"
| "is_nan _ = False"

definition dec_lt :: "decimal \<Rightarrow> decimal \<Rightarrow> error + bool" where
  "dec_lt a b = (if is_nan a \<or> is_nan b then Inl InvalidOperation else Inr (dec_cmp a b < 0))"

definition dec_le :: "decimal \<Rightarrow> decimal \<Rightarrow> error + bool" where
  "dec_le a b = (if is_nan a \<or> is_nan b then Inl InvalidOperation else Inr (dec_cmp a b \<le> 0))"

definition dec_gt :: "decimal \<Rightarrow> decimal \<Rightarrow> error + bool" where
  "dec_gt a b = (if is_nan a \<or> is_nan b then Inl InvalidOperation else Inr (0 < dec_cmp a b))"

text \<open>
  Addition and subtraction: the exact sum at the smaller exponent, then \<open>fix_context\<close>.
  A zero sum is negative only when both operands are negative. Subtraction adds the
  operand with its sign flipped.
\<close>

fun dec_add :: "decimal \<Rightarrow> decimal \<Rightarrow> error + decimal" where
  "dec_add SNaN _ = Inl InvalidOperation"
| "dec_add _ SNaN = Inl InvalidOperation"
| "dec_add NaN _ = Inr NaN"
| "dec_add _ NaN = Inr NaN"
| "dec_add (Infinity s1) (Infinity s2) = (if s1 \<noteq> s2 then Inl InvalidOperation else Inr (Infinity s1))"
| "dec_add (Infinity s1) (Finite _ _ _) = Inr (Infinity s1)"
| "dec_add (Finite _ _ _) (Infinity s2) = Inr (Infinity s2)"
| "dec_add (Finite s1 c1 e1) (Finite s2 c2 e2) =
     (let m = min e1 e2; v = signed s1 c1 e1 m + signed s2 c2 e2 m
      in fix_context (if v = 0 then s1 \<and> s2 else v < 0) (nat \<bar>v\<bar>) m)"

fun copy_negate :: "decimal \<Rightarrow> decimal" where
  "copy_negate (Finite s c e) = Finite (\<not> s) c e"
| "copy_negate (Infinity s) = Infinity (\<not> s)"
| "copy_negate d = d"

definition dec_sub :: "decimal \<Rightarrow> decimal \<Rightarrow> error + decimal" where
  "dec_sub a b = dec_add a (copy_negate b)"

section \<open>Python values\<close>

text \<open>
  The arguments the methods receive. \<^verbatim>\<open>bool\<close> is a subclass of \<^verbatim>\<open>int\<close>, so a boolean
  passes \<^verbatim>\<open>isinstance(amount, (int, float, Decimal))\<close>. The program reads a float only
  through \<^verbatim>\<open>str\<close> and through a comparison with zero, so a float is represented by the
  decimal that \<^verbatim>\<open>Decimal(str(x))\<close> denotes: \<open>10.999\<close> is \<open>Finite False 10999 (- 3)\<close>,
  \<open>float('nan')\<close> is \<open>NaN\<close>, \<open>float('-inf')\<close> is \<open>Infinity True\<close>. Not every such
  triple is the text of a float, so a statement about all of them covers more than the
  floats. A Python string is a list of Unicode code points.
\<close>

type_synonym pystr = "nat list"

datatype number = PyInt int | PyBool bool | PyFloat decimal | PyDecimal decimal

datatype pyval = Num number | PyStr pystr | PyNone

text \<open>
  \<^verbatim>\<open>Decimal(str(x))\<close>. \<^verbatim>\<open>str(True)\<close> is \<^verbatim>\<open>'True'\<close>, which is not the text of a
  number: the constructor raises \<^verbatim>\<open>InvalidOperation\<close>. CPython refuses to print an
  integer of more than 4300 digits.
\<close>

fun decimal_of_str :: "number \<Rightarrow> error + decimal" where
  "decimal_of_str (PyInt n) =
     (if 4300 < ndigits (nat \<bar>n\<bar>)
      then Inl (ValueError (''Exceeds the limit (4300 digits) for integer string conversion; '' @
                       ''use sys.set_int_max_str_digits() to increase the limit''))
      else Inr (Finite (n < 0) (nat \<bar>n\<bar>) 0))"
| "decimal_of_str (PyBool b) = Inl InvalidOperation"
| "decimal_of_str (PyFloat d) = Inr (if d = SNaN then NaN else d)"
| "decimal_of_str (PyDecimal d) = Inr d"

text \<open>\<^verbatim>\<open>x < 0\<close> for a number: false for a float NaN, an exception for a decimal NaN.\<close>

fun lt_zero :: "number \<Rightarrow> error + bool" where
  "lt_zero (PyInt n) = Inr (n < 0)"
| "lt_zero (PyBool b) = Inr False"
| "lt_zero (PyFloat d) = Inr (\<not> is_nan d \<and> dec_cmp d (Finite False 0 0) < 0)"
| "lt_zero (PyDecimal d) = dec_lt d (Finite False 0 0)"

text \<open>
  \<^verbatim>\<open>str.isdigit\<close>: a non-empty string of characters with the Unicode property
  \<open>Numeric_Type\<close> \<open>Digit\<close> or \<open>Decimal\<close> (the ranges of Unicode 14, as code points).
\<close>

definition digit_ranges :: "(nat \<times> nat) list" where
  "digit_ranges =
    [(48, 57), (178, 179), (185, 185), (1632, 1641), (1776, 1785), (1984, 1993), (2406, 2415),
     (2534, 2543), (2662, 2671), (2790, 2799), (2918, 2927), (3046, 3055), (3174, 3183),
     (3302, 3311), (3430, 3439), (3558, 3567), (3664, 3673), (3792, 3801), (3872, 3881),
     (4160, 4169), (4240, 4249), (4969, 4977), (6112, 6121), (6160, 6169), (6470, 6479),
     (6608, 6618), (6784, 6793), (6800, 6809), (6992, 7001), (7088, 7097), (7232, 7241),
     (7248, 7257), (8304, 8304), (8308, 8313), (8320, 8329), (9312, 9320), (9332, 9340),
     (9352, 9360), (9450, 9450), (9461, 9469), (9471, 9471), (10102, 10110), (10112, 10120),
     (10122, 10130), (42528, 42537), (43216, 43225), (43264, 43273), (43472, 43481),
     (43504, 43513), (43600, 43609), (44016, 44025), (65296, 65305), (66720, 66729),
     (68160, 68163), (68912, 68921), (69216, 69224), (69714, 69722), (69734, 69743),
     (69872, 69881), (69942, 69951), (70096, 70105), (70384, 70393), (70736, 70745),
     (70864, 70873), (71248, 71257), (71360, 71369), (71472, 71481), (71904, 71913),
     (72016, 72025), (72784, 72793), (73040, 73049), (73120, 73129), (92768, 92777),
     (92864, 92873), (93008, 93017), (120782, 120831), (123200, 123209), (123632, 123641),
     (125264, 125273), (127232, 127242), (130032, 130041)]"

definition isdigit_char :: "nat \<Rightarrow> bool" where
  "isdigit_char c = list_ex (\<lambda>(lo, hi). lo \<le> c \<and> c \<le> hi) digit_ranges"

definition isdigit :: "pystr \<Rightarrow> bool" where
  "isdigit s = (s \<noteq> [] \<and> list_all isdigit_char s)"

section \<open>The account\<close>

text \<open>
  A transaction is the dictionary \<^verbatim>\<open>_record_transaction\<close> builds. Lists and dictionaries
  are objects: the store holds them, an address is an index into the store, and a list
  object holds the addresses of its elements. \<^verbatim>\<open>_transaction_history\<close> is the address of
  the list that \<^verbatim>\<open>__init__\<close> creates. \<^verbatim>\<open>datetime.now().isoformat()\<close> is an argument
  \<open>now\<close> of the call.
\<close>

record transaction =
  ttype :: string
  amount :: decimal
  timestamp :: string

record store =
  dicts :: "transaction list"
  lists :: "nat list list"

record bank_account =
  account_number :: pystr
  balance :: decimal
  transaction_history :: nat

definition ACCOUNT_NUMBER_LENGTH :: nat where
  "ACCOUNT_NUMBER_LENGTH = 9"

definition CURRENCY_PRECISION :: decimal where
  "CURRENCY_PRECISION = Finite False 1 (- 2)"

definition init :: "pystr \<Rightarrow> number \<Rightarrow> store \<Rightarrow> (error + bank_account) \<times> store" where
  "init acct_no initial_balance h =
     (if acct_no = [] then (Inl (ValueError ''Account number cannot be empty''), h)
      else if \<not> isdigit acct_no \<or> length acct_no \<noteq> ACCOUNT_NUMBER_LENGTH
      then (Inl (ValueError ''Account number must be exactly 9 digits''), h)
      else case lt_zero initial_balance of
        Inl e \<Rightarrow> (Inl e, h)
      | Inr True \<Rightarrow> (Inl (ValueError ''Initial balance cannot be negative''), h)
      | Inr False \<Rightarrow>
          (case decimal_of_str initial_balance of
             Inl e \<Rightarrow> (Inl e, h)
           | Inr d \<Rightarrow>
               (case quantize d CURRENCY_PRECISION ROUND_HALF_UP of
                  Inl e \<Rightarrow> (Inl e, h)
                | Inr b \<Rightarrow>
                    (Inr \<lparr>account_number = acct_no, balance = b,
                          transaction_history = length (lists h)\<rparr>,
                     h\<lparr>lists := lists h @ [[]]\<rparr>))))"

definition validate_amount :: "pyval \<Rightarrow> error + decimal" where
  "validate_amount amt =
     (case amt of
        Num n \<Rightarrow>
          (case decimal_of_str n of
             Inl e \<Rightarrow> Inl e
           | Inr d \<Rightarrow>
               (case quantize d CURRENCY_PRECISION ROUND_HALF_UP of
                  Inl e \<Rightarrow> Inl e
                | Inr decimal_amount \<Rightarrow>
                    (case dec_le decimal_amount (Finite False 0 0) of
                       Inl e \<Rightarrow> Inl e
                     | Inr True \<Rightarrow> Inl (ValueError ''Amount must be positive'')
                     | Inr False \<Rightarrow> Inr decimal_amount)))
      | _ \<Rightarrow> Inl (TypeError ''Amount must be numeric''))"

text \<open>
  \<^verbatim>\<open>_record_transaction\<close> allocates the dictionary and appends its address to the
  account's list object.
\<close>

definition record_transaction ::
  "bank_account \<Rightarrow> string \<Rightarrow> decimal \<Rightarrow> string \<Rightarrow> store \<Rightarrow> store" where
  "record_transaction a transaction_type amt now h =
     (let d = length (dicts h);
          h1 = h\<lparr>dicts := dicts h @ [\<lparr>ttype = transaction_type, amount = amt, timestamp = now\<rparr>]\<rparr>;
          r = transaction_history a
      in h1\<lparr>lists := (lists h1)[r := lists h1 ! r @ [d]]\<rparr>)"

text \<open>
  A method returns its result or its exception together with the account and the store
  as the call leaves them, so that the state after a failed call is a value too.
\<close>

definition deposit ::
  "pyval \<Rightarrow> string \<Rightarrow> bank_account \<times> store \<Rightarrow> (error + bool) \<times> bank_account \<times> store" where
  "deposit amt now w =
     (case w of (a, h) \<Rightarrow>
        (case validate_amount amt of
           Inl e \<Rightarrow> (Inl e, a, h)
         | Inr decimal_amount \<Rightarrow>
             (case dec_add (balance a) decimal_amount of
                Inl e \<Rightarrow> (Inl e, a, h)
              | Inr b \<Rightarrow>
                  (let a1 = a\<lparr>balance := b\<rparr>
                   in (Inr True, a1, record_transaction a1 ''deposit'' decimal_amount now h)))))"

definition withdraw ::
  "pyval \<Rightarrow> string \<Rightarrow> bank_account \<times> store \<Rightarrow> (error + bool) \<times> bank_account \<times> store" where
  "withdraw amt now w =
     (case w of (a, h) \<Rightarrow>
        (case validate_amount amt of
           Inl e \<Rightarrow> (Inl e, a, h)
         | Inr decimal_amount \<Rightarrow>
             (case dec_gt decimal_amount (balance a) of
                Inl e \<Rightarrow> (Inl e, a, h)
              | Inr True \<Rightarrow> (Inl (ValueError ''Insufficient funds''), a, h)
              | Inr False \<Rightarrow>
                  (case dec_sub (balance a) decimal_amount of
                     Inl e \<Rightarrow> (Inl e, a, h)
                   | Inr b \<Rightarrow>
                       (let a1 = a\<lparr>balance := b\<rparr>
                        in (Inr True, a1,
                            record_transaction a1 ''withdrawal'' decimal_amount now h))))))"

text \<open>
  \<^verbatim>\<open>get_transaction_history\<close> returns \<^verbatim>\<open>self._transaction_history.copy()\<close>: a new list
  object holding the same element addresses.
\<close>

definition list_at :: "store \<Rightarrow> nat \<Rightarrow> nat list" where
  "list_at h r = (if r < length (lists h) then lists h ! r else [])"


text \<open>What a reader of a list object sees: the dictionaries its elements point to.\<close>

definition contents :: "store \<Rightarrow> nat \<Rightarrow> transaction list" where
  "contents h r = map (\<lambda>d. dicts h ! d) (list_at h r)"

definition history :: "bank_account \<times> store \<Rightarrow> transaction list" where
  "history w = (case w of (a, h) \<Rightarrow> contents h (transaction_history a))"

text \<open>A caller's sequence of calls; a failed call leaves the state to the next one.\<close>

datatype call = Deposit pyval string | Withdraw pyval string

fun step :: "bank_account \<times> store \<Rightarrow> call \<Rightarrow> bank_account \<times> store" where
  "step w (Deposit amt now) = snd (deposit amt now w)"
| "step w (Withdraw amt now) = snd (withdraw amt now w)"

definition run :: "call list \<Rightarrow> bank_account \<times> store \<Rightarrow> bank_account \<times> store" where
  "run cs w = foldl step w cs"

section \<open>Notions the statements use\<close>

text \<open>
  The coefficient \<^verbatim>\<open>quantize(Decimal('0.01'), ROUND_HALF_UP)\<close> computes for a finite
  decimal with coefficient \<open>c\<close> and exponent \<open>e\<close>, as the library computes it.
\<close>

definition cents_coeff :: "nat \<Rightarrow> int \<Rightarrow> nat" where
  "cents_coeff c e =
     (if - 2 \<le> e then c * 10 ^ nat (e + 2) else round_coeff ROUND_HALF_UP c (nat (- 2 - e)))"

text \<open>
  Round-half-up in the words of the specification: the number of hundredths nearest to
  \<open>c * 10^e\<close>, a tie going away from zero, that is \<open>c * 10^e * 100 + 1/2\<close> rounded
  down.
\<close>

definition half_up_cents :: "nat \<Rightarrow> int \<Rightarrow> nat" where
  "half_up_cents c e =
     (if - 2 \<le> e then c * 10 ^ nat (e + 2)
      else (2 * c + 10 ^ nat (- 2 - e)) div (2 * 10 ^ nat (- 2 - e)))"

text \<open>
  The value of a decimal in hundredths (exact for exponents from \<open>- 2\<close> upwards), and
  the decimals at scale 2.
\<close>

fun cents :: "decimal \<Rightarrow> int" where
  "cents (Finite s c e) = signed s c e (- 2)"
| "cents _ = 0"

fun scale2 :: "decimal \<Rightarrow> bool" where
  "scale2 (Finite s c e) = (e = - 2)"
| "scale2 _ = False"

fun exact_cents :: "decimal \<Rightarrow> bool" where
  "exact_cents (Finite s c e) = (- 2 \<le> e)"
| "exact_cents _ = False"

fun nonneg :: "decimal \<Rightarrow> bool" where
  "nonneg (Finite s c e) = (c = 0 \<or> s = False)"
| "nonneg (Infinity s) = (s = False)"
| "nonneg _ = False"

fun negative :: "number \<Rightarrow> bool" where
  "negative (PyInt n) = (n < 0)"
| "negative (PyBool b) = False"
| "negative (PyFloat (Finite s c e)) = (s \<and> 0 < c)"
| "negative (PyFloat (Infinity s)) = s"
| "negative (PyFloat _) = False"
| "negative (PyDecimal (Finite s c e)) = (s \<and> 0 < c)"
| "negative (PyDecimal (Infinity s)) = s"
| "negative (PyDecimal _) = False"

text \<open>The sum of the amounts of the transactions of one type, in hundredths.\<close>

definition total :: "string \<Rightarrow> transaction list \<Rightarrow> int" where
  "total ty ts = sum_list (map (\<lambda>t. if ttype t = ty then cents (amount t) else 0) ts)"

text \<open>
  The account's list object exists and every element of it is the address of a
  dictionary: the state of the store after \<^verbatim>\<open>__init__\<close> and after every method.
\<close>

definition wf :: "bank_account \<times> store \<Rightarrow> bool" where
  "wf w = (case w of (a, h) \<Rightarrow>
     transaction_history a < length (lists h) \<and>
     list_all (\<lambda>d. d < length (dicts h)) (lists h ! transaction_history a))"

text \<open>
  The transactions of the successful calls of a sequence, in the order of the calls, each
  with the validated amount and the time of its call.
\<close>

fun successes :: "bank_account \<times> store \<Rightarrow> call list \<Rightarrow> transaction list" where
  "successes w [] = []"
| "successes w (Deposit amt now # cs) =
     (case (fst (deposit amt now w), validate_amount amt) of
        (Inr _, Inr d) \<Rightarrow>
          \<lparr>ttype = ''deposit'', amount = d, timestamp = now\<rparr> # successes (step w (Deposit amt now)) cs
      | _ \<Rightarrow> successes (step w (Deposit amt now)) cs)"
| "successes w (Withdraw amt now # cs) =
     (case (fst (withdraw amt now w), validate_amount amt) of
        (Inr _, Inr d) \<Rightarrow>
          \<lparr>ttype = ''withdrawal'', amount = d, timestamp = now\<rparr> # successes (step w (Withdraw amt now)) cs
      | _ \<Rightarrow> successes (step w (Withdraw amt now)) cs)"

text \<open>Concrete inputs of the examples.\<close>

definition digits_1_to_9 :: pystr where
  "digits_1_to_9 = [49, 50, 51, 52, 53, 54, 55, 56, 57]"

definition empty_store :: store where
  "empty_store = \<lparr>dicts = [], lists = []\<rparr>"

definition account_100 :: "bank_account \<times> store" where
  "account_100 =
     (\<lparr>account_number = digits_1_to_9, balance = Finite False 10000 (- 2), transaction_history = 0\<rparr>,
      \<lparr>dicts = [], lists = [[]]\<rparr>)"

definition account_near_limit :: "bank_account \<times> store" where
  "account_near_limit =
     (\<lparr>account_number = digits_1_to_9, balance = Finite False 9999999999999999999999999999 (- 2),
       transaction_history = 0\<rparr>,
      \<lparr>dicts = [], lists = [[]]\<rparr>)"

text \<open>
  The two exceptions \<^verbatim>\<open>__init__\<close> raises for an account number it refuses.
\<close>

definition invalid_identifier :: "error \<Rightarrow> bool" where
  "invalid_identifier e =
     (e = ValueError ''Account number cannot be empty''
      \<or> e = ValueError ''Account number must be exactly 9 digits'')"

text \<open>Nine times U+0661, the Arabic-Indic digit one.\<close>

definition arabic_indic_ones :: pystr where
  "arabic_indic_ones = [1633, 1633, 1633, 1633, 1633, 1633, 1633, 1633, 1633]"

text \<open>
  The state of an account whose balance is a number of hundredths that agrees with its
  history: \<open>b0\<close> hundredths at the start, plus the deposits, minus the withdrawals.
\<close>

definition balanced :: "int \<Rightarrow> bank_account \<times> store \<Rightarrow> bool" where
  "balanced b0 w =
     (wf w \<and> 0 \<le> total ''withdrawal'' (history w) \<and>
      (case balance (fst w) of
         Finite s c e \<Rightarrow>
           e = - 2 \<and> (s \<longrightarrow> c = 0) \<and>
           int c = b0 + total ''deposit'' (history w) - total ''withdrawal'' (history w)
       | _ \<Rightarrow> False))"

text \<open>
  The scripted sequence of the specification on the account with balance 100.00: deposit 50,
  withdraw 20, deposit 30, its log, and the state it ends in.
\<close>

definition scenario :: "call list" where
  "scenario =
     [Deposit (Num (PyInt 50)) ''2024-01-01T09:00:00'',
      Withdraw (Num (PyInt 20)) ''2024-01-01T10:00:00'',
      Deposit (Num (PyInt 30)) ''2024-01-01T11:00:00'']"

definition scenario_log :: "transaction list" where
  "scenario_log =
     [\<lparr>ttype = ''deposit'', amount = Finite False 5000 (- 2), timestamp = ''2024-01-01T09:00:00''\<rparr>,
      \<lparr>ttype = ''withdrawal'', amount = Finite False 2000 (- 2), timestamp = ''2024-01-01T10:00:00''\<rparr>,
      \<lparr>ttype = ''deposit'', amount = Finite False 3000 (- 2), timestamp = ''2024-01-01T11:00:00''\<rparr>]"

definition account_160 :: "bank_account \<times> store" where
  "account_160 =
     (\<lparr>account_number = digits_1_to_9, balance = Finite False 16000 (- 2), transaction_history = 0\<rparr>,
      \<lparr>dicts = scenario_log, lists = [[0, 1, 2]]\<rparr>)"

section \<open>Facts about the decimal operations\<close>

lemma ndigits_pos: "0 < ndigits n"
  by (subst ndigits.simps) simp

lemma ndigits_le_iff: "0 < k \<Longrightarrow> ndigits n \<le> k \<longleftrightarrow> n < 10 ^ k"
proof (induction n arbitrary: k rule: ndigits.induct)
  case (1 n)
  show ?case
  proof (cases "n < 10")
    case True
    have "(10::nat) ^ 1 \<le> 10 ^ k" using 1(2) by (intro power_increasing) auto
    with True 1(2) show ?thesis by (subst ndigits.simps) auto
  next
    case False
    show ?thesis
    proof (cases k)
      case 0
      with 1(2) show ?thesis by simp
    next
      case (Suc j)
      show ?thesis
      proof (cases "j = 0")
        case True
        with False Suc ndigits_pos [of "n div 10"] show ?thesis
          by (subst ndigits.simps) auto
      next
        case j: False
        from 1(1) [OF False, of j] j have "ndigits (n div 10) \<le> j \<longleftrightarrow> n div 10 < 10 ^ j" by simp
        also have "\<dots> \<longleftrightarrow> n < 10 ^ Suc j" by (simp add: div_less_iff_less_mult mult.commute)
        finally show ?thesis using False Suc by (subst ndigits.simps) auto
      qed
    qed
  qed
qed

lemma ndigits_lower:
  assumes "0 < n"
  shows "10 ^ (ndigits n - 1) \<le> n"
proof (cases "ndigits n - 1 = 0")
  case True
  with assms show ?thesis by simp
next
  case False
  then have pos: "0 < ndigits n - 1" by simp
  have "\<not> ndigits n \<le> ndigits n - 1" using pos by simp
  with ndigits_le_iff [OF pos, of n] show ?thesis by (simp add: not_less)
qed

lemma round_coeff_zero: "round_coeff r 0 k = 0"
  by (cases r) (auto simp: round_coeff_def Let_def)

lemma round_coeff_ge: "c div 10 ^ k \<le> round_coeff r c k"
  by (cases r) (auto simp: round_coeff_def Let_def)

lemma fix_context_small:
  assumes "c < 10 ^ 28"
  shows "fix_context s c (- 2) = Inr (Finite s c (- 2))"
proof (cases "c = 0")
  case True
  then show ?thesis by (simp add: fix_context_def Etiny_def Emin_def Emax_def prec_def)
next
  case False
  from assms have "ndigits c \<le> 28" by (simp add: ndigits_le_iff)
  with False show ?thesis
    by (simp add: fix_context_def Let_def Etiny_def Emin_def Emax_def Etop_def prec_def)
qed

lemma cents_coeff_big:
  assumes "0 < c" and "27 \<le> int (ndigits c) + e"
  shows "10 ^ 28 \<le> cents_coeff c e"
proof (cases "- 2 \<le> e")
  case True
  have "(10::nat) ^ 28 \<le> 10 ^ (ndigits c - 1 + nat (e + 2))"
    using assms True by (intro power_increasing) auto
  also have "\<dots> = 10 ^ (ndigits c - 1) * 10 ^ nat (e + 2)" by (simp add: power_add)
  also have "\<dots> \<le> c * 10 ^ nat (e + 2)"
    using ndigits_lower [OF assms(1)] by (intro mult_right_mono) auto
  finally show ?thesis using True by (simp add: cents_coeff_def)
next
  case False
  define k where "k = nat (- 2 - e)"
  have k: "k + 28 \<le> ndigits c - 1" using assms False by (auto simp: k_def)
  have "(10::nat) ^ 28 * 10 ^ k \<le> 10 ^ (ndigits c - 1)"
    unfolding power_add [symmetric] using k by (intro power_increasing) (auto simp: add.commute)
  also have "\<dots> \<le> c" by (rule ndigits_lower [OF assms(1)])
  finally have "10 ^ 28 \<le> c div 10 ^ k" by (simp add: less_eq_div_iff_mult_less_eq)
  also have "\<dots> \<le> round_coeff ROUND_HALF_UP c k" by (rule round_coeff_ge)
  finally show ?thesis using False by (simp add: cents_coeff_def k_def)
qed

text \<open>
  Quantising to hundredths in closed form: the rounded coefficient, if it has at most
  28 digits, and \<^verbatim>\<open>InvalidOperation\<close> otherwise.
\<close>

lemma quantize_cents:
  "quantize (Finite s c e) CURRENCY_PRECISION ROUND_HALF_UP =
     (if cents_coeff c e < 10 ^ 28 then Inr (Finite s (cents_coeff c e) (- 2))
      else Inl InvalidOperation)"
proof (cases "c = 0")
  case True
  then show ?thesis
    by (simp add: CURRENCY_PRECISION_def cents_coeff_def round_coeff_zero fix_context_small
        Etiny_def Emin_def Emax_def prec_def)
next
  case False
  have resc: "rescale s c e (- 2) ROUND_HALF_UP = Finite s (cents_coeff c e) (- 2)"
    using False by (auto simp: rescale_def cents_coeff_def)
  show ?thesis
  proof (cases "27 \<le> int (ndigits c) + e")
    case True
    then have big: "10 ^ 28 \<le> cents_coeff c e" using False by (intro cents_coeff_big) auto
    then have "\<not> ndigits (cents_coeff c e) \<le> 28" by (simp add: ndigits_le_iff)
    with big show ?thesis using False
      by (simp add: CURRENCY_PRECISION_def Let_def resc Etiny_def Emin_def Emax_def prec_def)
  next
    case small: False
    show ?thesis
    proof (cases "cents_coeff c e < 10 ^ 28")
      case True
      then have "ndigits (cents_coeff c e) \<le> 28" by (simp add: ndigits_le_iff)
      with True small False show ?thesis
        by (simp add: CURRENCY_PRECISION_def Let_def resc fix_context_small
            Etiny_def Emin_def Emax_def prec_def)
    next
      case big: False
      then have "\<not> ndigits (cents_coeff c e) \<le> 28" by (simp add: ndigits_le_iff)
      with big small False show ?thesis
        by (simp add: CURRENCY_PRECISION_def Let_def resc Etiny_def Emin_def Emax_def prec_def)
    qed
  qed
qed

lemma round_half_up_floor:
  assumes "0 < k"
  shows "round_coeff ROUND_HALF_UP c k = (2 * c + 10 ^ k) div (2 * 10 ^ k)"
proof -
  define P :: nat where "P = 10 ^ (k - 1)"
  define q where "q = c div (10 * P)"
  define m where "m = c mod (10 * P)"
  have pow: "(10::nat) ^ k = 10 * P" using assms by (cases k) (auto simp: P_def)
  have P: "0 < P" by (simp add: P_def)
  have c: "c = 10 * P * q + m" by (simp add: q_def m_def)
  have m: "m < 10 * P" using P by (simp add: m_def)
  have lhs: "round_coeff ROUND_HALF_UP c k = (if 5 * P \<le> m then q + 1 else q)"
    using assms unfolding round_coeff_def Let_def pow q_def m_def P_def by simp
  show ?thesis
  proof (cases "5 * P \<le> m")
    case True
    have "(2 * c + 10 * P) div (20 * P) = q + 1"
      using True m by (intro div_nat_eqI) (auto simp: c algebra_simps)
    with True lhs show ?thesis by (simp add: pow)
  next
    case False
    have "(2 * c + 10 * P) div (20 * P) = q"
      using False m by (intro div_nat_eqI) (auto simp: c algebra_simps)
    with False lhs show ?thesis by (simp add: pow)
  qed
qed

lemma cents_coeff_half_up: "cents_coeff c e = half_up_cents c e"
  by (simp add: cents_coeff_def half_up_cents_def round_half_up_floor)

lemma dec_le_zero_scale2: "dec_le (Finite s c (- 2)) (Finite False 0 0) = Inr (s \<or> c = 0)"
  by (auto simp: dec_le_def signed_def Let_def)

lemma small_int_prints:
  assumes "\<bar>n\<bar> < 10 ^ 28"
  shows "decimal_of_str (PyInt n) = Inr (Finite (n < 0) (nat \<bar>n\<bar>) 0)"
proof -
  have "nat \<bar>n\<bar> < 10 ^ 28" using assms by (simp add: nat_less_iff)
  then have "ndigits (nat \<bar>n\<bar>) \<le> 28" by (simp add: ndigits_le_iff)
  then show ?thesis by simp
qed

lemma validate_closed:
  assumes "decimal_of_str n = Inr (Finite s c e)"
  shows "validate_amount (Num n) =
     (if cents_coeff c e < 10 ^ 28
      then (if s \<or> cents_coeff c e = 0 then Inl (ValueError ''Amount must be positive'')
            else Inr (Finite False (cents_coeff c e) (- 2)))
      else Inl InvalidOperation)"
  using assms by (auto simp: validate_amount_def quantize_cents dec_le_zero_scale2)

lemma validate_shape:
  assumes "validate_amount x = Inr d"
  shows "\<exists>c. d = Finite False c (- 2) \<and> 0 < c \<and> c < 10 ^ 28"
proof (cases x)
  case (Num n)
  with assms obtain d0 where d0: "decimal_of_str n = Inr d0"
    by (auto simp: validate_amount_def split: sum.splits)
  show ?thesis
  proof (cases d0)
    case (Finite s c e)
    with assms Num d0 validate_closed [of n s c e] show ?thesis
      by (auto split: if_splits)
  next
    case (Infinity s)
    with assms Num d0 show ?thesis
      by (simp add: validate_amount_def CURRENCY_PRECISION_def)
  next
    case NaN
    with assms Num d0 show ?thesis
      by (simp add: validate_amount_def CURRENCY_PRECISION_def dec_le_def)
  next
    case SNaN
    with assms Num d0 show ?thesis
      by (simp add: validate_amount_def CURRENCY_PRECISION_def)
  qed
qed (use assms in \<open>auto simp: validate_amount_def\<close>)

section \<open>Concrete evaluations\<close>

lemma validate_200: "validate_amount (Num (PyInt 200)) = Inr (Finite False 20000 (- 2))"
  by (simp add: validate_closed [OF small_int_prints] cents_coeff_def)

lemma gt_200_100: "dec_gt (Finite False 20000 (- 2)) (Finite False 10000 (- 2)) = Inr True"
  by (simp add: dec_gt_def signed_def)

section \<open>Failed calls\<close>

text \<open>
  C3. Whenever \<^verbatim>\<open>deposit\<close> or \<^verbatim>\<open>withdraw\<close> raises, whatever the exception (a
  non-numeric amount, a non-positive amount, insufficient funds, or an exception of the
  decimal library), the account and the store are the same after the call as before it:
  the balance and the transaction history have not changed.
\<close>

theorem failed_call_changes_nothing:
  assumes "f = deposit \<or> f = withdraw" and "fst (f amt now w) = Inl e"
  shows "snd (f amt now w) = w \<and> balance (fst (snd (f amt now w))) = balance (fst w)
         \<and> history (snd (f amt now w)) = history w"
proof -
  have "snd (f amt now w) = w"
    using assms
    by (auto simp: deposit_def withdraw_def Let_def split: prod.splits sum.splits bool.splits)
  then show ?thesis by simp
qed

theorem failed_call_changes_nothing_witness:
  "fst (withdraw (Num (PyInt 200)) ''2024-01-01T00:00:00'' account_100) =
     Inl (ValueError ''Insufficient funds'')
   \<and> snd (withdraw (Num (PyInt 200)) ''2024-01-01T00:00:00'' account_100) = account_100"
proof -
  have h: "fst (withdraw (Num (PyInt 200)) ''2024-01-01T00:00:00'' account_100) =
             Inl (ValueError ''Insufficient funds'')"
    by (simp add: withdraw_def account_100_def validate_200 gt_200_100)
  from failed_call_changes_nothing [of withdraw, OF _ h] h show ?thesis by simp
qed

section \<open>Amount validation\<close>

lemma validate_bool: "validate_amount (Num (PyBool b)) = Inl InvalidOperation"
  by (simp add: validate_amount_def)

lemma validate_scale2:
  "validate_amount (Num (PyDecimal (Finite s c (- 2)))) =
     (if c < 10 ^ 28
      then (if s \<or> c = 0 then Inl (ValueError ''Amount must be positive'')
            else Inr (Finite False c (- 2)))
      else Inl InvalidOperation)"
  by (simp add: validate_closed [of _ s c "- 2"] cents_coeff_def)

lemma validate_10999:
  "validate_amount (Num (PyFloat (Finite False 10999 (- 3)))) = Inr (Finite False 1100 (- 2))"
  by (simp add: validate_closed [of _ False 10999 "- 3"] cents_coeff_def round_coeff_def)

lemma validate_0001:
  "validate_amount (Num (PyFloat (Finite False 1 (- 3)))) = Inl (ValueError ''Amount must be positive'')"
  by (simp add: validate_closed [of _ False 1 "- 3"] cents_coeff_def round_coeff_def)

lemma validate_50: "validate_amount (Num (PyInt 50)) = Inr (Finite False 5000 (- 2))"
  by (simp add: validate_closed [OF small_int_prints] cents_coeff_def)

lemma validate_100: "validate_amount (Num (PyInt 100)) = Inr (Finite False 10000 (- 2))"
  by (simp add: validate_closed [OF small_int_prints] cents_coeff_def)

lemma validate_100_01:
  "validate_amount (Num (PyDecimal (Finite False 10001 (- 2)))) = Inr (Finite False 10001 (- 2))"
  by (simp add: validate_scale2)

text \<open>
  A boolean passes the \<^verbatim>\<open>isinstance\<close> check of \<^verbatim>\<open>_validate_amount\<close>, but
  \<^verbatim>\<open>str(True)\<close> is \<^verbatim>\<open>'True'\<close> and the \<^verbatim>\<open>Decimal\<close> constructor raises
  \<^verbatim>\<open>InvalidOperation\<close> on it: \<^verbatim>\<open>deposit\<close> and \<^verbatim>\<open>withdraw\<close> of a boolean end with
  that exception, on every account.
\<close>

lemma bool_amount_raises:
  "validate_amount (Num (PyBool b)) = Inl InvalidOperation
   \<and> deposit (Num (PyBool b)) now w = (Inl InvalidOperation, w)
   \<and> withdraw (Num (PyBool b)) now w = (Inl InvalidOperation, w)"
  by (simp add: validate_bool deposit_def withdraw_def split: prod.splits)

text \<open>
  C10. On the account with balance 100.00, \<^verbatim>\<open>deposit(True)\<close> is not rejected as
  non-numeric, and it does not deposit 1.00 either: it raises \<^verbatim>\<open>InvalidOperation\<close>, and
  the balance and the history stay as they were. \<^verbatim>\<open>deposit(False)\<close> raises the same
  exception, not the \<^verbatim>\<open>ValueError\<close> "Amount must be positive" that the docstring of
  \<^verbatim>\<open>deposit\<close> announces for an amount that is not positive.
\<close>

theorem deposit_bool_raises:
  "deposit (Num (PyBool True)) ''2024-01-01T00:00:00'' account_100 = (Inl InvalidOperation, account_100)
   \<and> balance (fst account_100) = Finite False 10000 (- 2)
   \<and> history account_100 = []
   \<and> fst (deposit (Num (PyBool True)) ''2024-01-01T00:00:00'' account_100)
       \<noteq> Inl (TypeError ''Amount must be numeric'')
   \<and> fst (deposit (Num (PyBool False)) ''2024-01-01T00:00:00'' account_100)
       \<noteq> Inl (ValueError ''Amount must be positive'')"
  by (simp add: validate_bool deposit_def account_100_def history_def contents_def list_at_def)

text \<open>
  Validation returns a strictly positive amount at scale 2 unchanged when the amount has
  at most 28 digits, that is when it is below \<open>10^26\<close>; and validating the result of a
  successful validation returns the same value.
\<close>

theorem validate_amount_idempotent:
  "(0 < c \<and> c < 10 ^ 28 \<longrightarrow>
      validate_amount (Num (PyDecimal (Finite False c (- 2)))) = Inr (Finite False c (- 2)))
   \<and> (validate_amount x = Inr d \<longrightarrow> validate_amount (Num (PyDecimal d)) = Inr d)"
proof (intro conjI impI)
  assume "0 < c \<and> c < 10 ^ 28"
  then show "validate_amount (Num (PyDecimal (Finite False c (- 2)))) = Inr (Finite False c (- 2))"
    by (simp add: validate_scale2)
next
  assume "validate_amount x = Inr d"
  from validate_shape [OF this] obtain c where "d = Finite False c (- 2)" "0 < c" "c < 10 ^ 28"
    by blast
  then show "validate_amount (Num (PyDecimal d)) = Inr d"
    by (simp add: validate_scale2)
qed

theorem validate_amount_idempotent_witness:
  "validate_amount (Num (PyDecimal (Finite False 1100 (- 2)))) = Inr (Finite False 1100 (- 2))
   \<and> validate_amount (Num (PyFloat (Finite False 10999 (- 3)))) = Inr (Finite False 1100 (- 2))"
  using validate_amount_idempotent [of 1100 "Num (PyFloat (Finite False 10999 (- 3)))" "Finite False 1100 (- 2)"]
  by (simp add: validate_10999)

text \<open>
  C8. The amount \<open>10^26\<close> written with two decimals,
  \<open>100000000000000000000000000.00\<close>, is strictly positive and already at scale 2, and
  \<^verbatim>\<open>_validate_amount\<close> does not return it unchanged: \<^verbatim>\<open>quantize\<close> refuses a result of
  29 digits under the default context, and the call raises \<^verbatim>\<open>InvalidOperation\<close>, an
  exception the docstring does not list.
\<close>

theorem validate_scale2_amount_raises:
  "validate_amount (Num (PyDecimal (Finite False (10 ^ 28) (- 2)))) = Inl InvalidOperation
   \<and> scale2 (Finite False (10 ^ 28) (- 2))
   \<and> 0 < cents (Finite False (10 ^ 28) (- 2))"
  by (simp add: validate_scale2 signed_def)

section \<open>Arithmetic at scale 2\<close>

text \<open>
  Sums, differences and comparisons of amounts in hundredths, and the exceptions the
  decimal operations can raise.
\<close>

lemma signed_same [simp]: "signed s c e e = (if s then - int c else int c)"
  by (simp add: signed_def)

lemma dec_add_cents:
  assumes "s \<longrightarrow> c = 0" and "0 < a"
  shows "dec_add (Finite s c (- 2)) (Finite False a (- 2)) = fix_context False (c + a) (- 2)"
  using assms by (auto simp: Let_def simp flip: of_nat_add)

lemma dec_gt_cents:
  assumes "s \<longrightarrow> c = 0"
  shows "dec_gt (Finite False a (- 2)) (Finite s c (- 2)) = Inr (c < a)"
  using assms by (auto simp: dec_gt_def Let_def)

lemma dec_sub_cents:
  assumes "a \<le> c" and "0 < a"
  shows "dec_sub (Finite False c (- 2)) (Finite False a (- 2)) = fix_context False (c - a) (- 2)"
  using assms by (auto simp: dec_sub_def Let_def nat_diff_distrib' of_nat_diff)

lemma fix_context_error: "fix_context s c e = Inl err \<Longrightarrow> err = Overflow"
  by (auto simp: fix_context_def Let_def split: if_splits)

lemma dec_add_error: "dec_add a b = Inl err \<Longrightarrow> err = Overflow \<or> err = InvalidOperation"
  by (cases "(a, b)" rule: dec_add.cases) (auto simp: Let_def dest: fix_context_error split: if_splits)

lemma dec_gt_error: "dec_gt a b = Inl err \<Longrightarrow> err = InvalidOperation"
  by (auto simp: dec_gt_def split: if_splits)

lemma dec_gt_exact:
  assumes "exact_cents b"
  shows "dec_gt (Finite False ca (- 2)) b = Inr (cents b < int ca)"
proof (cases b)
  case (Finite s c e)
  with assms have "min (- 2) e = - 2" by simp
  with Finite show ?thesis by (simp add: dec_gt_def Let_def)
qed (use assms in auto)

lemma dec_sub_all:
  assumes "exact_cents b" and "cents b = int ca" and "0 < ca"
  shows "dec_sub b (Finite False ca (- 2)) = Inr (Finite False 0 (- 2))"
proof (cases b)
  case (Finite s c e)
  with assms have m: "min e (- 2) = - 2" by simp
  have s: "\<not> s"
  proof
    assume s
    with Finite assms(2) have "- (int c * 10 ^ nat (e + 2)) = int ca" by (simp add: signed_def)
    moreover have "0 \<le> int c * (10::int) ^ nat (e + 2)" by simp
    ultimately show False using assms(3) by linarith
  qed
  from Finite assms(2) s have v: "signed False c e (- 2) = int ca" by simp
  show ?thesis
    using Finite s
    by (simp add: dec_sub_def Let_def m v fix_context_def Etiny_def Emin_def Emax_def prec_def)
qed (use assms in auto)

section \<open>The transaction log\<close>

text \<open>
  In a well-formed store \<^verbatim>\<open>_record_transaction\<close> appends exactly one transaction to
  what the account's list shows, and the store stays well-formed.
\<close>

lemma list_at_record:
  assumes "transaction_history a < length (lists h)"
  shows "list_at (record_transaction a ty amt now h) (transaction_history a) =
           lists h ! transaction_history a @ [length (dicts h)]"
  using assms by (simp add: record_transaction_def list_at_def Let_def)

lemma dicts_record:
  "dicts (record_transaction a ty amt now h) =
     dicts h @ [\<lparr>ttype = ty, amount = amt, timestamp = now\<rparr>]"
  by (simp add: record_transaction_def Let_def)

lemma length_lists_record: "length (lists (record_transaction a ty amt now h)) = length (lists h)"
  by (simp add: record_transaction_def Let_def)

lemma history_record:
  assumes "wf (a, h)" and "transaction_history a' = transaction_history a"
  shows "history (a', record_transaction a' ty amt now h) =
           history (a, h) @ [\<lparr>ttype = ty, amount = amt, timestamp = now\<rparr>]"
proof -
  from assms have r: "transaction_history a' < length (lists h)"
    and el: "list_all (\<lambda>d. d < length (dicts h)) (lists h ! transaction_history a')"
    by (simp_all add: wf_def)
  have same: "map (\<lambda>d. (dicts h @ [\<lparr>ttype = ty, amount = amt, timestamp = now\<rparr>]) ! d)
          (lists h ! transaction_history a') =
        map (\<lambda>d. dicts h ! d) (lists h ! transaction_history a')"
    using el by (intro map_cong) (auto simp: list_all_iff nth_append)
  have old: "history (a, h) = map (\<lambda>d. dicts h ! d) (lists h ! transaction_history a')"
    using r by (simp add: history_def contents_def list_at_def flip: assms(2))
  have "history (a', record_transaction a' ty amt now h) =
          map (\<lambda>d. (dicts h @ [\<lparr>ttype = ty, amount = amt, timestamp = now\<rparr>]) ! d)
            (lists h ! transaction_history a' @ [length (dicts h)])"
    using r by (simp add: history_def contents_def list_at_record dicts_record)
  with same old show ?thesis by simp
qed

lemma wf_record:
  assumes "wf (a, h)" and "transaction_history a' = transaction_history a"
  shows "wf (a', record_transaction a' ty amt now h)"
  using assms
  by (auto simp: wf_def record_transaction_def Let_def list_all_iff less_Suc_eq)

lemma deposit_success:
  assumes "fst (deposit x now (a, h)) = Inr r"
  obtains d b where "validate_amount x = Inr d" and "dec_add (balance a) d = Inr b"
    and "deposit x now (a, h) =
           (Inr True, a\<lparr>balance := b\<rparr>, record_transaction (a\<lparr>balance := b\<rparr>) ''deposit'' d now h)"
  using assms by (auto simp: deposit_def Let_def split: sum.splits)

lemma withdraw_success:
  assumes "fst (withdraw x now (a, h)) = Inr r"
  obtains d b where "validate_amount x = Inr d" and "dec_gt d (balance a) = Inr False"
    and "dec_sub (balance a) d = Inr b"
    and "withdraw x now (a, h) =
           (Inr True, a\<lparr>balance := b\<rparr>, record_transaction (a\<lparr>balance := b\<rparr>) ''withdrawal'' d now h)"
  using assms by (auto simp: withdraw_def Let_def split: sum.splits bool.splits)

lemma deposit_applies:
  assumes "wf w" and "fst (deposit x now w) = Inr r"
  shows "\<exists>d. validate_amount x = Inr d
           \<and> dec_add (balance (fst w)) d = Inr (balance (fst (snd (deposit x now w))))
           \<and> history (snd (deposit x now w)) =
               history w @ [\<lparr>ttype = ''deposit'', amount = d, timestamp = now\<rparr>]"
proof (cases w)
  case (Pair a h)
  with assms(2) obtain d b where "validate_amount x = Inr d" "dec_add (balance a) d = Inr b"
    "deposit x now (a, h) =
       (Inr True, a\<lparr>balance := b\<rparr>, record_transaction (a\<lparr>balance := b\<rparr>) ''deposit'' d now h)"
    by (auto elim: deposit_success)
  with assms(1) Pair show ?thesis by (simp add: history_record)
qed

lemma withdraw_applies:
  assumes "wf w" and "fst (withdraw x now w) = Inr r"
  shows "\<exists>d. validate_amount x = Inr d
           \<and> dec_sub (balance (fst w)) d = Inr (balance (fst (snd (withdraw x now w))))
           \<and> history (snd (withdraw x now w)) =
               history w @ [\<lparr>ttype = ''withdrawal'', amount = d, timestamp = now\<rparr>]"
proof (cases w)
  case (Pair a h)
  with assms(2) obtain d b where "validate_amount x = Inr d" "dec_sub (balance a) d = Inr b"
    "withdraw x now (a, h) =
       (Inr True, a\<lparr>balance := b\<rparr>, record_transaction (a\<lparr>balance := b\<rparr>) ''withdrawal'' d now h)"
    by (auto elim: withdraw_success)
  with assms(1) Pair show ?thesis by (simp add: history_record)
qed

lemma wf_account_100: "wf account_100"
  by (simp add: wf_def account_100_def)

lemma history_account_100: "history account_100 = []"
  by (simp add: history_def contents_def list_at_def account_100_def)

lemma deposit_50:
  "deposit (Num (PyInt 50)) now account_100 =
     (Inr True,
      \<lparr>account_number = digits_1_to_9, balance = Finite False 15000 (- 2), transaction_history = 0\<rparr>,
      \<lparr>dicts = [\<lparr>ttype = ''deposit'', amount = Finite False 5000 (- 2), timestamp = now\<rparr>],
       lists = [[0]]\<rparr>)"
  by (simp add: deposit_def account_100_def validate_50 dec_add_cents fix_context_small
      record_transaction_def Let_def)

lemma withdraw_50:
  "withdraw (Num (PyInt 50)) now account_100 =
     (Inr True,
      \<lparr>account_number = digits_1_to_9, balance = Finite False 5000 (- 2), transaction_history = 0\<rparr>,
      \<lparr>dicts = [\<lparr>ttype = ''withdrawal'', amount = Finite False 5000 (- 2), timestamp = now\<rparr>],
       lists = [[0]]\<rparr>)"
  by (simp add: withdraw_def account_100_def validate_50 dec_gt_cents dec_sub_cents fix_context_small
      record_transaction_def Let_def)

section \<open>Rounding of amounts\<close>

text \<open>
  For a finite numeric input whose value, rounded half-up to hundredths, has at most 28
  digits (it is below \<open>10^26\<close> in absolute value), \<^verbatim>\<open>_validate_amount\<close> raises
  "Amount must be positive" exactly when the rounded value is zero or the input is negative,
  and returns the rounded value at scale 2 otherwise. \<open>10.999\<close> validates to
  \<open>11.00\<close> and \<open>0.001\<close> is rejected. On a successful \<^verbatim>\<open>deposit\<close> or
  \<^verbatim>\<open>withdraw\<close> the validated amount is the operand of the addition or subtraction that
  gives the new balance, and the amount of the one transaction appended to the history.
\<close>

theorem validate_amount_rounding:
  "(decimal_of_str n = Inr (Finite s c e) \<and> half_up_cents c e < 10 ^ 28 \<longrightarrow>
      validate_amount (Num n) =
        (if s \<or> half_up_cents c e = 0 then Inl (ValueError ''Amount must be positive'')
         else Inr (Finite False (half_up_cents c e) (- 2))))
   \<and> validate_amount (Num (PyFloat (Finite False 10999 (- 3)))) = Inr (Finite False 1100 (- 2))
   \<and> validate_amount (Num (PyFloat (Finite False 1 (- 3)))) =
       Inl (ValueError ''Amount must be positive'')
   \<and> (wf w \<and> fst (deposit x now w) = Inr r \<longrightarrow>
        (\<exists>d. validate_amount x = Inr d
           \<and> dec_add (balance (fst w)) d = Inr (balance (fst (snd (deposit x now w))))
           \<and> history (snd (deposit x now w)) =
               history w @ [\<lparr>ttype = ''deposit'', amount = d, timestamp = now\<rparr>]))
   \<and> (wf w \<and> fst (withdraw x now w) = Inr r \<longrightarrow>
        (\<exists>d. validate_amount x = Inr d
           \<and> dec_sub (balance (fst w)) d = Inr (balance (fst (snd (withdraw x now w))))
           \<and> history (snd (withdraw x now w)) =
               history w @ [\<lparr>ttype = ''withdrawal'', amount = d, timestamp = now\<rparr>]))"
proof (intro conjI impI)
  assume "decimal_of_str n = Inr (Finite s c e) \<and> half_up_cents c e < 10 ^ 28"
  then show "validate_amount (Num n) =
        (if s \<or> half_up_cents c e = 0 then Inl (ValueError ''Amount must be positive'')
         else Inr (Finite False (half_up_cents c e) (- 2)))"
    using validate_closed [of n s c e] by (simp add: cents_coeff_half_up)
next
  show "validate_amount (Num (PyFloat (Finite False 10999 (- 3)))) = Inr (Finite False 1100 (- 2))"
    by (rule validate_10999)
next
  show "validate_amount (Num (PyFloat (Finite False 1 (- 3)))) =
       Inl (ValueError ''Amount must be positive'')"
    by (rule validate_0001)
next
  assume "wf w \<and> fst (deposit x now w) = Inr r"
  then show "\<exists>d. validate_amount x = Inr d
           \<and> dec_add (balance (fst w)) d = Inr (balance (fst (snd (deposit x now w))))
           \<and> history (snd (deposit x now w)) =
               history w @ [\<lparr>ttype = ''deposit'', amount = d, timestamp = now\<rparr>]"
    using deposit_applies by blast
next
  assume "wf w \<and> fst (withdraw x now w) = Inr r"
  then show "\<exists>d. validate_amount x = Inr d
           \<and> dec_sub (balance (fst w)) d = Inr (balance (fst (snd (withdraw x now w))))
           \<and> history (snd (withdraw x now w)) =
               history w @ [\<lparr>ttype = ''withdrawal'', amount = d, timestamp = now\<rparr>]"
    using withdraw_applies by blast
qed

theorem validate_amount_rounding_witness:
  "validate_amount (Num (PyFloat (Finite False 10999 (- 3)))) = Inr (Finite False 1100 (- 2))
   \<and> validate_amount (Num (PyInt 50)) = Inr (Finite False 5000 (- 2))
   \<and> dec_add (Finite False 10000 (- 2)) (Finite False 5000 (- 2)) = Inr (Finite False 15000 (- 2))
   \<and> history (snd (deposit (Num (PyInt 50)) ''2024-01-01T00:00:00'' account_100)) =
       [\<lparr>ttype = ''deposit'', amount = Finite False 5000 (- 2), timestamp = ''2024-01-01T00:00:00''\<rparr>]
   \<and> dec_sub (Finite False 10000 (- 2)) (Finite False 5000 (- 2)) = Inr (Finite False 5000 (- 2))
   \<and> history (snd (withdraw (Num (PyInt 50)) ''2024-01-01T00:00:00'' account_100)) =
       [\<lparr>ttype = ''withdrawal'', amount = Finite False 5000 (- 2), timestamp = ''2024-01-01T00:00:00''\<rparr>]"
proof -
  have h1: "decimal_of_str (PyFloat (Finite False 10999 (- 3))) = Inr (Finite False 10999 (- 3))
            \<and> half_up_cents 10999 (- 3) < 10 ^ 28"
    by (simp add: half_up_cents_def)
  have h2: "wf account_100
            \<and> fst (deposit (Num (PyInt 50)) ''2024-01-01T00:00:00'' account_100) = Inr True"
    by (simp add: wf_account_100 deposit_50)
  have h3: "wf account_100
            \<and> fst (withdraw (Num (PyInt 50)) ''2024-01-01T00:00:00'' account_100) = Inr True"
    by (simp add: wf_account_100 withdraw_50)
  have b: "balance (fst account_100) = Finite False 10000 (- 2)"
    by (simp add: account_100_def)
  from validate_amount_rounding [of "PyFloat (Finite False 10999 (- 3))" False 10999 "- 3"
      account_100 "Num (PyInt 50)" "''2024-01-01T00:00:00''" True] h1 h2 h3
  show ?thesis
    by (simp add: half_up_cents_def validate_50 deposit_50 withdraw_50 history_account_100 b)
qed

text \<open>
  C4. The integer \<open>- 10^26\<close> is numeric and negative, so its value rounded to
  hundredths is not positive, and \<^verbatim>\<open>_validate_amount\<close> does not raise the
  \<^verbatim>\<open>ValueError\<close> "Amount must be positive" of its docstring: at scale 2 the value has
  29 digits, one more than the default context allows \<^verbatim>\<open>quantize\<close> to produce, and
  \<^verbatim>\<open>InvalidOperation\<close> is raised before the test \<^verbatim>\<open>decimal_amount <= 0\<close> is reached.
\<close>

theorem validate_negative_amount_raises:
  "validate_amount (Num (PyInt (- (10 ^ 26)))) = Inl InvalidOperation
   \<and> negative (PyInt (- (10 ^ 26)))
   \<and> validate_amount (Num (PyInt (- (10 ^ 26)))) \<noteq> Inl (ValueError ''Amount must be positive'')"
  by (simp add: validate_closed [OF small_int_prints] cents_coeff_def)

section \<open>Withdrawal\<close>

lemma withdraw_insufficient_iff:
  assumes "validate_amount x = Inr amt"
  shows "fst (withdraw x now (a, h)) = Inl (ValueError ''Insufficient funds'')
         \<longleftrightarrow> dec_gt amt (balance a) = Inr True"
  using assms
  by (auto simp: withdraw_def dec_sub_def Let_def split: sum.splits bool.splits
      dest: dec_gt_error dec_add_error)

text \<open>
  C5. For an amount that passes validation, \<^verbatim>\<open>withdraw\<close> raises "Insufficient funds"
  exactly when the comparison \<^verbatim>\<open>decimal_amount > self._balance\<close> is true, which for a
  balance that is a whole number of hundredths means that the amount exceeds the balance;
  the account and the store are then unchanged. Withdrawing exactly the balance succeeds
  and leaves \<open>0.00\<close>; withdrawing the balance plus \<open>0.01\<close> raises "Insufficient funds".
\<close>

theorem withdraw_insufficient_funds:
  assumes "validate_amount x = Inr amt"
  shows "(fst (withdraw x now w) = Inl (ValueError ''Insufficient funds'')
            \<longleftrightarrow> dec_gt amt (balance (fst w)) = Inr True)
     \<and> (exact_cents (balance (fst w)) \<longrightarrow>
          (fst (withdraw x now w) = Inl (ValueError ''Insufficient funds'')
             \<longleftrightarrow> cents (balance (fst w)) < cents amt))
     \<and> (fst (withdraw x now w) = Inl (ValueError ''Insufficient funds'') \<longrightarrow>
          snd (withdraw x now w) = w)
     \<and> (exact_cents (balance (fst w)) \<and> cents amt = cents (balance (fst w)) \<longrightarrow>
          fst (withdraw x now w) = Inr True
          \<and> balance (fst (snd (withdraw x now w))) = Finite False 0 (- 2))
     \<and> (exact_cents (balance (fst w)) \<and> cents amt = cents (balance (fst w)) + 1 \<longrightarrow>
          fst (withdraw x now w) = Inl (ValueError ''Insufficient funds''))"
proof -
  from validate_shape [OF assms] obtain ca
    where amt: "amt = Finite False ca (- 2)" and ca: "0 < ca" by blast
  have iff: "fst (withdraw x now w) = Inl (ValueError ''Insufficient funds'')
               \<longleftrightarrow> dec_gt amt (balance (fst w)) = Inr True"
    using withdraw_insufficient_iff [OF assms, of now "fst w" "snd w"] by simp
  have gt: "dec_gt amt (balance (fst w)) = Inr (cents (balance (fst w)) < cents amt)" if "exact_cents (balance (fst w))"
    using dec_gt_exact [OF that, of ca] by (simp add: amt)
  have unchanged: "snd (withdraw x now w) = w"
    if "fst (withdraw x now w) = Inl (ValueError ''Insufficient funds'')"
    using that by (auto simp: withdraw_def Let_def split: prod.splits sum.splits bool.splits)
  have full: "fst (withdraw x now w) = Inr True
          \<and> balance (fst (snd (withdraw x now w))) = Finite False 0 (- 2)"
    if "exact_cents (balance (fst w)) \<and> cents amt = cents (balance (fst w))"
  proof -
    from that have "dec_gt amt (balance (fst w)) = Inr False" by (simp add: gt)
    moreover from that ca have "dec_sub (balance (fst w)) amt = Inr (Finite False 0 (- 2))"
      by (simp add: amt dec_sub_all)
    ultimately show ?thesis using assms by (cases w) (simp add: withdraw_def Let_def)
  qed
  have over: "fst (withdraw x now w) = Inl (ValueError ''Insufficient funds'')"
    if "exact_cents (balance (fst w)) \<and> cents amt = cents (balance (fst w)) + 1"
    using that by (simp add: iff gt)
  have iff2: "fst (withdraw x now w) = Inl (ValueError ''Insufficient funds'')
               \<longleftrightarrow> cents (balance (fst w)) < cents amt" if "exact_cents (balance (fst w))"
    using gt [OF that] by (simp add: iff)
  show ?thesis
    using iff iff2 unchanged full over by (intro conjI impI) blast+
qed

theorem withdraw_insufficient_funds_witness:
  "fst (withdraw (Num (PyInt 100)) ''2024-01-01T00:00:00'' account_100) = Inr True
   \<and> balance (fst (snd (withdraw (Num (PyInt 100)) ''2024-01-01T00:00:00'' account_100))) =
       Finite False 0 (- 2)
   \<and> fst (withdraw (Num (PyDecimal (Finite False 10001 (- 2)))) ''2024-01-01T00:00:00'' account_100) =
       Inl (ValueError ''Insufficient funds'')
   \<and> snd (withdraw (Num (PyDecimal (Finite False 10001 (- 2)))) ''2024-01-01T00:00:00'' account_100) =
       account_100"
proof -
  have b: "balance (fst account_100) = Finite False 10000 (- 2)"
    by (simp add: account_100_def)
  from withdraw_insufficient_funds [OF validate_100, of "''2024-01-01T00:00:00''" account_100]
  have full: "fst (withdraw (Num (PyInt 100)) ''2024-01-01T00:00:00'' account_100) = Inr True
    \<and> balance (fst (snd (withdraw (Num (PyInt 100)) ''2024-01-01T00:00:00'' account_100))) =
       Finite False 0 (- 2)"
    by (simp add: b)
  from withdraw_insufficient_funds [OF validate_100_01, of "''2024-01-01T00:00:00''" account_100]
  have over: "fst (withdraw (Num (PyDecimal (Finite False 10001 (- 2)))) ''2024-01-01T00:00:00''
                 account_100) = Inl (ValueError ''Insufficient funds'')
    \<and> snd (withdraw (Num (PyDecimal (Finite False 10001 (- 2)))) ''2024-01-01T00:00:00''
                 account_100) = account_100"
    by (simp add: b)
  from full over show ?thesis by simp
qed

section \<open>Construction\<close>

text \<open>
  \<^verbatim>\<open>__init__\<close> with its two identifier tests folded into one condition, and the
  exceptions the later steps can raise.
\<close>

lemma isdigit_char_ascii:
  assumes "c < 128"
  shows "isdigit_char c \<longleftrightarrow> 48 \<le> c \<and> c \<le> 57"
  using assms by (auto simp: isdigit_char_def digit_ranges_def)

lemma isdigit_digits_1_to_9: "isdigit digits_1_to_9"
  by (simp add: isdigit_def digits_1_to_9_def isdigit_char_def digit_ranges_def)

lemma isdigit_arabic_indic_ones: "isdigit arabic_indic_ones"
  by (simp add: isdigit_def arabic_indic_ones_def isdigit_char_def digit_ranges_def)

lemma init_identifier:
  "init acct ib h =
     (if acct = [] then (Inl (ValueError ''Account number cannot be empty''), h)
      else if \<not> (length acct = 9 \<and> list_all isdigit_char acct)
      then (Inl (ValueError ''Account number must be exactly 9 digits''), h)
      else case lt_zero ib of
        Inl e \<Rightarrow> (Inl e, h)
      | Inr True \<Rightarrow> (Inl (ValueError ''Initial balance cannot be negative''), h)
      | Inr False \<Rightarrow>
          (case decimal_of_str ib of
             Inl e \<Rightarrow> (Inl e, h)
           | Inr d \<Rightarrow>
               (case quantize d CURRENCY_PRECISION ROUND_HALF_UP of
                  Inl e \<Rightarrow> (Inl e, h)
                | Inr b \<Rightarrow>
                    (Inr \<lparr>account_number = acct, balance = b,
                          transaction_history = length (lists h)\<rparr>,
                     h\<lparr>lists := lists h @ [[]]\<rparr>))))"
  by (auto simp: init_def isdigit_def ACCOUNT_NUMBER_LENGTH_def)

lemma quantize_error: "quantize d q r = Inl err \<Longrightarrow> err = InvalidOperation \<or> err = Overflow"
  by (cases "(d, q, r)" rule: quantize.cases)
     (auto simp: Let_def dest: fix_context_error split: if_splits decimal.splits)

lemma lt_zero_error: "lt_zero ib = Inl err \<Longrightarrow> err = InvalidOperation"
  by (cases ib) (auto simp: dec_lt_def split: if_splits)

lemma decimal_of_str_error:
  "decimal_of_str ib = Inl err \<Longrightarrow> \<not> invalid_identifier err"
  by (cases ib) (auto simp: invalid_identifier_def split: if_splits)

lemma init_valid_identifier_error:
  assumes "length acct = 9" and "list_all isdigit_char acct" and "fst (init acct ib h) = Inl err"
  shows "\<not> invalid_identifier err"
proof -
  from assms(1) have ne: "acct \<noteq> []" by auto
  show ?thesis
    using assms ne
    by (auto simp: init_identifier invalid_identifier_def
        split: sum.splits bool.splits
        dest!: lt_zero_error quantize_error decimal_of_str_error)
qed

lemma init_invalid_identifier:
  assumes "\<not> (length acct = 9 \<and> list_all isdigit_char acct)"
  shows "\<exists>err. fst (init acct ib h) = Inl err \<and> invalid_identifier err"
  using assms by (auto simp: init_identifier invalid_identifier_def)

lemma init_100:
  assumes "length acct = 9" and "list_all isdigit_char acct"
  shows "init acct (PyInt 100) h =
     (Inr \<lparr>account_number = acct, balance = Finite False 10000 (- 2),
           transaction_history = length (lists h)\<rparr>,
      h\<lparr>lists := lists h @ [[]]\<rparr>)"
proof -
  from assms(1) have "acct \<noteq> []" by auto
  moreover have "decimal_of_str (PyInt 100) = Inr (Finite False 100 0)"
    using small_int_prints [of 100] by simp
  ultimately show ?thesis
    using assms by (simp add: init_identifier quantize_cents cents_coeff_def)
qed

lemma negative_lt_zero: "negative ib \<Longrightarrow> lt_zero ib = Inr True"
proof (induction ib rule: negative.induct)
  case (3 s c e)
  then show ?case by (simp add: Let_def signed_def)
next
  case (6 s c e)
  then show ?case by (simp add: dec_lt_def Let_def signed_def)
qed (simp_all add: dec_lt_def)

lemma init_success:
  assumes "init acct ib h = (Inr a, h')"
  obtains d where "lt_zero ib = Inr False" and "decimal_of_str ib = Inr d"
    and "quantize d CURRENCY_PRECISION ROUND_HALF_UP = Inr (balance a)"
    and "account_number a = acct" and "transaction_history a = length (lists h)"
    and "h' = h\<lparr>lists := lists h @ [[]]\<rparr>"
  using assms
  by (auto simp: init_identifier split: if_splits sum.splits bool.splits)

lemma init_history:
  assumes "init acct ib h = (Inr a, h')"
  shows "wf (a, h') \<and> history (a, h') = []"
  using assms
  by (elim init_success) (simp add: wf_def history_def contents_def list_at_def)

lemma init_100_555:
  "init digits_1_to_9 (PyFloat (Finite False 100555 (- 3))) empty_store =
     (Inr \<lparr>account_number = digits_1_to_9, balance = Finite False 10056 (- 2),
           transaction_history = 0\<rparr>,
      \<lparr>dicts = [], lists = [[]]\<rparr>)"
proof -
  have "length digits_1_to_9 = 9" and "digits_1_to_9 \<noteq> []" by (simp_all add: digits_1_to_9_def)
  moreover have "list_all isdigit_char digits_1_to_9"
    using isdigit_digits_1_to_9 by (simp add: isdigit_def)
  ultimately show ?thesis
    by (simp add: init_identifier quantize_cents cents_coeff_def round_coeff_def empty_store_def
        Let_def signed_def)
qed

text \<open>
  C6. \<^verbatim>\<open>__init__\<close> refuses the account number, with one of its two account-number
  exceptions, exactly when the string does not consist of exactly 9 characters that
  \<^verbatim>\<open>str.isdigit\<close> takes for digits. These are the Unicode digits, not only the ASCII
  ones: among strings of ASCII characters the accepted account numbers are exactly the
  strings of nine characters \<open>0\<close> to \<open>9\<close>.
\<close>

theorem identifier_accepted_iff:
  "((\<exists>err. fst (init acct ib h) = Inl err \<and> invalid_identifier err)
      \<longleftrightarrow> \<not> (length acct = 9 \<and> list_all isdigit_char acct))
   \<and> (list_all (\<lambda>c. c < 128) acct \<longrightarrow>
        ((\<exists>err. fst (init acct ib h) = Inl err \<and> invalid_identifier err)
           \<longleftrightarrow> \<not> (length acct = 9 \<and> list_all (\<lambda>c. 48 \<le> c \<and> c \<le> 57) acct)))"
proof -
  have main: "(\<exists>err. fst (init acct ib h) = Inl err \<and> invalid_identifier err)
      \<longleftrightarrow> \<not> (length acct = 9 \<and> list_all isdigit_char acct)"
    using init_valid_identifier_error [of acct ib h] init_invalid_identifier [of acct ib h]
    by blast
  have "list_all isdigit_char acct = list_all (\<lambda>c. 48 \<le> c \<and> c \<le> 57) acct"
    if "list_all (\<lambda>c. c < 128) acct"
    using that by (induction acct) (auto simp: isdigit_char_ascii)
  with main show ?thesis by simp
qed

theorem identifier_accepted_iff_witness:
  "(\<exists>err. fst (init [49, 50, 51, 52, 53] (PyInt 100) empty_store) = Inl err \<and> invalid_identifier err)
   \<and> \<not> (\<exists>err. fst (init digits_1_to_9 (PyInt 100) empty_store) = Inl err \<and> invalid_identifier err)"
  using identifier_accepted_iff [of "[49, 50, 51, 52, 53]" "PyInt 100" empty_store]
    identifier_accepted_iff [of digits_1_to_9 "PyInt 100" empty_store]
  by (simp add: digits_1_to_9_def isdigit_char_ascii)

text \<open>
  An account number of nine Arabic-Indic digits, none of them an ASCII character, is
  accepted.
\<close>

theorem identifier_accepted_iff_counterexample:
  "init arabic_indic_ones (PyInt 100) empty_store =
     (Inr \<lparr>account_number = arabic_indic_ones, balance = Finite False 10000 (- 2),
           transaction_history = 0\<rparr>,
      \<lparr>dicts = [], lists = [[]]\<rparr>)
   \<and> \<not> list_all (\<lambda>c. 48 \<le> c \<and> c \<le> 57) arabic_indic_ones"
proof -
  have "length arabic_indic_ones = 9" by (simp add: arabic_indic_ones_def)
  moreover have "list_all isdigit_char arabic_indic_ones"
    using isdigit_arabic_indic_ones by (simp add: isdigit_def)
  ultimately show ?thesis
    by (simp add: init_100 empty_store_def) (simp add: arabic_indic_ones_def)
qed

text \<open>
  With an account number that passes, a negative initial balance makes \<^verbatim>\<open>__init__\<close>
  raise "Initial balance cannot be negative" and leaves the store as it was. After every
  successful construction the balance is \<^verbatim>\<open>Decimal(str(initial_balance))\<close> quantised to
  \<open>0.01\<close> with \<^verbatim>\<open>ROUND_HALF_UP\<close>, which for a finite value is the value rounded half-up
  to hundredths at scale 2; the account's list is a new object of the store and the history
  is empty.
\<close>

theorem construction_balance_and_history:
  "(length acct = 9 \<and> list_all isdigit_char acct \<and> negative ib \<longrightarrow>
      init acct ib h = (Inl (ValueError ''Initial balance cannot be negative''), h))
   \<and> (init acct ib h = (Inr a, h') \<longrightarrow>
        (\<exists>d. decimal_of_str ib = Inr d
           \<and> quantize d CURRENCY_PRECISION ROUND_HALF_UP = Inr (balance a)
           \<and> (\<forall>s c e. d = Finite s c e \<longrightarrow> balance a = Finite s (half_up_cents c e) (- 2)))
        \<and> wf (a, h') \<and> history (a, h') = [])"
proof (intro conjI impI)
  assume v: "length acct = 9 \<and> list_all isdigit_char acct \<and> negative ib"
  then have "acct \<noteq> []" by auto
  with v show "init acct ib h = (Inl (ValueError ''Initial balance cannot be negative''), h)"
    by (simp add: init_identifier negative_lt_zero)
next
  assume ok: "init acct ib h = (Inr a, h')"
  then obtain d where d: "decimal_of_str ib = Inr d"
    and q: "quantize d CURRENCY_PRECISION ROUND_HALF_UP = Inr (balance a)"
    by (elim init_success)
  have "balance a = Finite s (half_up_cents c e) (- 2)" if "d = Finite s c e" for s c e
    using q that by (simp add: quantize_cents cents_coeff_half_up split: if_splits)
  with d q show "\<exists>d. decimal_of_str ib = Inr d
           \<and> quantize d CURRENCY_PRECISION ROUND_HALF_UP = Inr (balance a)
           \<and> (\<forall>s c e. d = Finite s c e \<longrightarrow> balance a = Finite s (half_up_cents c e) (- 2))"
    by blast
  from init_history [OF ok] show "wf (a, h')" by simp
  from init_history [OF ok] show "history (a, h') = []" by simp
qed

theorem construction_balance_and_history_witness:
  "init digits_1_to_9 (PyFloat (Finite True 1000 (- 1))) empty_store =
     (Inl (ValueError ''Initial balance cannot be negative''), empty_store)
   \<and> (\<exists>d. decimal_of_str (PyFloat (Finite False 100555 (- 3))) = Inr d
         \<and> quantize d CURRENCY_PRECISION ROUND_HALF_UP = Inr (Finite False 10056 (- 2)))
   \<and> half_up_cents 100555 (- 3) = 10056
   \<and> history (\<lparr>account_number = digits_1_to_9, balance = Finite False 10056 (- 2),
                transaction_history = 0\<rparr>, \<lparr>dicts = [], lists = [[]]\<rparr>) = []"
proof -
  have v: "length digits_1_to_9 = 9 \<and> list_all isdigit_char digits_1_to_9
           \<and> negative (PyFloat (Finite True 1000 (- 1)))"
    using isdigit_digits_1_to_9 by (simp add: isdigit_def) (simp add: digits_1_to_9_def)
  from construction_balance_and_history
    [of digits_1_to_9 "PyFloat (Finite True 1000 (- 1))" empty_store] v
  have neg: "init digits_1_to_9 (PyFloat (Finite True 1000 (- 1))) empty_store =
     (Inl (ValueError ''Initial balance cannot be negative''), empty_store)"
    by blast
  from construction_balance_and_history
    [of digits_1_to_9 "PyFloat (Finite False 100555 (- 3))" empty_store
       "\<lparr>account_number = digits_1_to_9, balance = Finite False 10056 (- 2),
           transaction_history = 0\<rparr>" "\<lparr>dicts = [], lists = [[]]\<rparr>"] init_100_555
  have ok: "(\<exists>d. decimal_of_str (PyFloat (Finite False 100555 (- 3))) = Inr d
         \<and> quantize d CURRENCY_PRECISION ROUND_HALF_UP = Inr (Finite False 10056 (- 2)))
   \<and> history (\<lparr>account_number = digits_1_to_9, balance = Finite False 10056 (- 2),
                transaction_history = 0\<rparr>, \<lparr>dicts = [], lists = [[]]\<rparr>) = []"
    by auto
  have "half_up_cents 100555 (- 3) = 10056" by (simp add: half_up_cents_def)
  with neg ok show ?thesis by simp
qed

lemma init_nan:
  "init digits_1_to_9 (PyFloat NaN) empty_store =
     (Inr \<lparr>account_number = digits_1_to_9, balance = NaN, transaction_history = 0\<rparr>,
      \<lparr>dicts = [], lists = [[]]\<rparr>)"
proof -
  have "length digits_1_to_9 = 9" and "digits_1_to_9 \<noteq> []" by (simp_all add: digits_1_to_9_def)
  moreover have "list_all isdigit_char digits_1_to_9"
    using isdigit_digits_1_to_9 by (simp add: isdigit_def)
  ultimately show ?thesis
    by (simp add: init_identifier CURRENCY_PRECISION_def empty_store_def)
qed

text \<open>
  C7. With the account number \<^verbatim>\<open>"123456789"\<close> and the initial balance
  \<^verbatim>\<open>float('nan')\<close>, which is not negative, the construction succeeds, and the balance
  immediately afterwards is not the initial balance converted to scale 2: it is the NaN
  that \<^verbatim>\<open>Decimal('nan').quantize\<close> hands back, a value that has no scale and that no
  rounding has touched.
\<close>

theorem nan_construction_balance:
  "fst (init digits_1_to_9 (PyFloat NaN) empty_store) =
     Inr \<lparr>account_number = digits_1_to_9, balance = NaN, transaction_history = 0\<rparr>
   \<and> \<not> negative (PyFloat NaN)
   \<and> decimal_of_str (PyFloat NaN) = Inr NaN
   \<and> \<not> scale2 NaN \<and> \<not> exact_cents NaN"
  by (simp add: init_nan)

text \<open>The construction succeeds and its balance is not at scale 2.\<close>

theorem nan_construction_balance_witness:
  "(case fst (init digits_1_to_9 (PyFloat NaN) empty_store) of
      Inl e \<Rightarrow> False
    | Inr a \<Rightarrow> \<not> scale2 (balance a) \<and> \<not> exact_cents (balance a))"
  using nan_construction_balance by simp

section \<open>The sign of the balance\<close>

text \<open>
  C2. \<^verbatim>\<open>__init__\<close> guards the sign of the balance with \<^verbatim>\<open>initial_balance < 0\<close>. For
  \<^verbatim>\<open>float('nan')\<close> this comparison is false, \<^verbatim>\<open>Decimal('nan').quantize\<close> returns the NaN,
  and the account is constructed with a balance that is not a number, hence not a
  non-negative amount; a later deposit leaves it so.
\<close>

theorem nan_initial_balance:
  "init digits_1_to_9 (PyFloat NaN) empty_store =
     (Inr \<lparr>account_number = digits_1_to_9, balance = NaN, transaction_history = 0\<rparr>,
      \<lparr>dicts = [], lists = [[]]\<rparr>)
   \<and> \<not> nonneg NaN
   \<and> balance (fst (run [Deposit (Num (PyInt 50)) ''2024-01-01T00:00:00'']
        (\<lparr>account_number = digits_1_to_9, balance = NaN, transaction_history = 0\<rparr>,
         \<lparr>dicts = [], lists = [[]]\<rparr>))) = NaN"
proof -
  have "length digits_1_to_9 = 9" and "digits_1_to_9 \<noteq> []" by (simp_all add: digits_1_to_9_def)
  moreover have "list_all isdigit_char digits_1_to_9"
    using isdigit_digits_1_to_9 by (simp add: isdigit_def)
  ultimately show ?thesis
    by (simp add: init_identifier CURRENCY_PRECISION_def empty_store_def run_def deposit_def
        validate_50 Let_def)
qed


text \<open>The constructed account exists and its balance is not non-negative.\<close>

theorem nan_initial_balance_witness:
  "(case fst (init digits_1_to_9 (PyFloat NaN) empty_store) of
      Inl e \<Rightarrow> False
    | Inr a \<Rightarrow> balance a = NaN \<and> \<not> nonneg (balance a))"
  using nan_initial_balance by simp

section \<open>Sequences of calls\<close>

text \<open>
  A failed call returns the state it received, every call keeps the store well-formed, and
  the history after a sequence of calls is the history before it followed by the
  transactions of the successful calls.
\<close>

lemma failed_deposit: "fst (deposit x now w) = Inl err \<Longrightarrow> snd (deposit x now w) = w"
  by (auto simp: deposit_def Let_def split: prod.splits sum.splits)

lemma failed_withdraw: "fst (withdraw x now w) = Inl err \<Longrightarrow> snd (withdraw x now w) = w"
  by (auto simp: withdraw_def Let_def split: prod.splits sum.splits bool.splits)

lemma wf_deposit: "wf w \<Longrightarrow> wf (snd (deposit x now w))"
  by (cases w) (auto simp: deposit_def Let_def wf_record split: sum.splits)

lemma wf_withdraw: "wf w \<Longrightarrow> wf (snd (withdraw x now w))"
  by (cases w) (auto simp: withdraw_def Let_def wf_record split: sum.splits bool.splits)

lemma wf_step: "wf w \<Longrightarrow> wf (step w cl)"
  by (cases cl) (simp_all add: wf_deposit wf_withdraw)

lemma run_Nil [simp]: "run [] w = w"
  by (simp add: run_def)

lemma run_Cons [simp]: "run (cl # cs) w = run cs (step w cl)"
  by (simp add: run_def)

lemma run_snoc: "run (cs @ [cl]) w = step (run cs w) cl"
  by (simp add: run_def)

lemma wf_run: "wf w \<Longrightarrow> wf (run cs w)"
  by (induction cs arbitrary: w) (simp_all add: wf_step)

lemma history_step:
  assumes "wf w"
  shows "history (step w cl) = history w @ successes w [cl]"
proof (cases cl)
  case (Deposit x now)
  show ?thesis
  proof (cases "fst (deposit x now w)")
    case (Inl err)
    with Deposit failed_deposit [OF Inl] show ?thesis by simp
  next
    case (Inr r)
    from deposit_applies [OF assms Inr] Deposit Inr show ?thesis by auto
  qed
next
  case (Withdraw x now)
  show ?thesis
  proof (cases "fst (withdraw x now w)")
    case (Inl err)
    with Withdraw failed_withdraw [OF Inl] show ?thesis by simp
  next
    case (Inr r)
    from withdraw_applies [OF assms Inr] Withdraw Inr show ?thesis by auto
  qed
qed



lemma total_append: "total ty (xs @ ys) = total ty xs + total ty ys"
  by (simp add: total_def)

lemma total_Nil [simp]: "total ty [] = 0"
  by (simp add: total_def)

lemma total_single:
  "total ty [\<lparr>ttype = ty', amount = Finite False c (- 2), timestamp = now\<rparr>] =
     (if ty' = ty then int c else 0)"
  by (simp add: total_def)

section \<open>The balance and the history\<close>

text \<open>
  Each successful call moves the balance by the validated amount as long as the sum stays
  within the 28 digits of the context.
\<close>

lemma balancedE:
  assumes "balanced b0 w"
  obtains s c where "wf w" and "0 \<le> total ''withdrawal'' (history w)"
    and "balance (fst w) = Finite s c (- 2)" and "s \<longrightarrow> c = 0"
    and "int c = b0 + total ''deposit'' (history w) - total ''withdrawal'' (history w)"
  using assms by (auto simp: balanced_def split: decimal.splits)

lemma balancedI:
  assumes "wf w" and "0 \<le> total ''withdrawal'' (history w)"
    and "balance (fst w) = Finite s c (- 2)" and "s \<longrightarrow> c = 0"
    and "int c = b0 + total ''deposit'' (history w) - total ''withdrawal'' (history w)"
  shows "balanced b0 w"
  using assms by (simp add: balanced_def)

lemma balanced_deposit:
  assumes "balanced b0 (a, h)"
    and "b0 + total ''deposit'' (history (snd (deposit x now (a, h)))) < 10 ^ 28"
  shows "balanced b0 (snd (deposit x now (a, h)))"
proof (cases "fst (deposit x now (a, h))")
  case (Inl err)
  with failed_deposit [OF Inl] assms(1) show ?thesis by simp
next
  case (Inr r)
  from assms(1) obtain s c where wf: "wf (a, h)"
    and wd: "0 \<le> total ''withdrawal'' (history (a, h))"
    and bal: "balance a = Finite s c (- 2)" and sign: "s \<longrightarrow> c = 0"
    and eq: "int c = b0 + total ''deposit'' (history (a, h)) - total ''withdrawal'' (history (a, h))"
    by (auto elim: balancedE)
  from Inr obtain d b where v: "validate_amount x = Inr d" and add: "dec_add (balance a) d = Inr b"
    and res: "deposit x now (a, h) =
       (Inr True, a\<lparr>balance := b\<rparr>, record_transaction (a\<lparr>balance := b\<rparr>) ''deposit'' d now h)"
    by (rule deposit_success)
  from validate_shape [OF v] obtain ca where d: "d = Finite False ca (- 2)" and ca: "0 < ca"
    by blast
  have hist: "history (snd (deposit x now (a, h))) =
                history (a, h) @ [\<lparr>ttype = ''deposit'', amount = d, timestamp = now\<rparr>]"
    by (simp add: res history_record [OF wf])
  have dep: "total ''deposit'' (history (snd (deposit x now (a, h)))) =
               total ''deposit'' (history (a, h)) + int ca"
    by (simp add: hist total_append d total_single)
  have wd': "total ''withdrawal'' (history (snd (deposit x now (a, h)))) =
               total ''withdrawal'' (history (a, h))"
    by (simp add: hist total_append d total_single)
  from assms(2) dep eq wd have "int (c + ca) < 10 ^ 28" by simp
  then have small: "c + ca < 10 ^ 28" by (simp only: of_nat_less_numeral_power_cancel_iff)
  have "dec_add (Finite s c (- 2)) (Finite False ca (- 2)) = Inr (Finite False (c + ca) (- 2))"
    by (simp only: dec_add_cents [OF sign ca] fix_context_small [OF small])
  with add have b: "b = Finite False (c + ca) (- 2)" by (simp only: bal d sum.inject)
  show ?thesis
  proof (rule balancedI [where s = False and c = "c + ca"])
    show "wf (snd (deposit x now (a, h)))" using wf by (rule wf_deposit)
    show "0 \<le> total ''withdrawal'' (history (snd (deposit x now (a, h))))"
      using wd by (simp add: wd')
    show "balance (fst (snd (deposit x now (a, h)))) = Finite False (c + ca) (- 2)"
      by (simp add: res b)
    show "False \<longrightarrow> c + ca = 0" by simp
    show "int (c + ca) = b0 + total ''deposit'' (history (snd (deposit x now (a, h))))
            - total ''withdrawal'' (history (snd (deposit x now (a, h))))"
      using eq by (simp add: dep wd')
  qed
qed

lemma balanced_withdraw:
  assumes "balanced b0 (a, h)"
    and "b0 + total ''deposit'' (history (snd (withdraw x now (a, h)))) < 10 ^ 28"
  shows "balanced b0 (snd (withdraw x now (a, h)))"
proof (cases "fst (withdraw x now (a, h))")
  case (Inl err)
  with failed_withdraw [OF Inl] assms(1) show ?thesis by simp
next
  case (Inr r)
  from assms(1) obtain s c where wf: "wf (a, h)"
    and wd: "0 \<le> total ''withdrawal'' (history (a, h))"
    and bal: "balance a = Finite s c (- 2)" and sign: "s \<longrightarrow> c = 0"
    and eq: "int c = b0 + total ''deposit'' (history (a, h)) - total ''withdrawal'' (history (a, h))"
    by (auto elim: balancedE)
  from Inr obtain d b where v: "validate_amount x = Inr d"
    and gt: "dec_gt d (balance a) = Inr False"
    and sub: "dec_sub (balance a) d = Inr b"
    and res: "withdraw x now (a, h) =
       (Inr True, a\<lparr>balance := b\<rparr>, record_transaction (a\<lparr>balance := b\<rparr>) ''withdrawal'' d now h)"
    by (rule withdraw_success)
  from validate_shape [OF v] obtain ca where d: "d = Finite False ca (- 2)" and ca: "0 < ca"
    by blast
  have hist: "history (snd (withdraw x now (a, h))) =
                history (a, h) @ [\<lparr>ttype = ''withdrawal'', amount = d, timestamp = now\<rparr>]"
    by (simp add: res history_record [OF wf])
  have dep: "total ''deposit'' (history (snd (withdraw x now (a, h)))) =
               total ''deposit'' (history (a, h))"
    by (simp add: hist total_append d total_single)
  have wd': "total ''withdrawal'' (history (snd (withdraw x now (a, h)))) =
               total ''withdrawal'' (history (a, h)) + int ca"
    by (simp add: hist total_append d total_single)
  from gt have le: "ca \<le> c" by (simp only: bal d dec_gt_cents [OF sign]) simp
  with ca sign have s: "s = False" by auto
  from assms(2) dep eq wd have "int c < 10 ^ 28" by simp
  then have "c < 10 ^ 28" by (simp only: of_nat_less_numeral_power_cancel_iff)
  then have small: "c - ca < 10 ^ 28" by simp
  have "dec_sub (Finite False c (- 2)) (Finite False ca (- 2)) = Inr (Finite False (c - ca) (- 2))"
    by (simp only: dec_sub_cents [OF le ca] fix_context_small [OF small])
  with sub have b: "b = Finite False (c - ca) (- 2)" by (simp only: bal d s sum.inject)
  show ?thesis
  proof (rule balancedI [where s = False and c = "c - ca"])
    show "wf (snd (withdraw x now (a, h)))" using wf by (rule wf_withdraw)
    show "0 \<le> total ''withdrawal'' (history (snd (withdraw x now (a, h))))"
      using wd by (simp add: wd')
    show "balance (fst (snd (withdraw x now (a, h)))) = Finite False (c - ca) (- 2)"
      by (simp add: res b)
    show "False \<longrightarrow> c - ca = 0" by simp
    show "int (c - ca) = b0 + total ''deposit'' (history (snd (withdraw x now (a, h))))
            - total ''withdrawal'' (history (snd (withdraw x now (a, h))))"
      using eq le by (simp add: dep wd' of_nat_diff)
  qed
qed

lemma balanced_step:
  assumes "balanced b0 w" and "b0 + total ''deposit'' (history (step w cl)) < 10 ^ 28"
  shows "balanced b0 (step w cl)"
  using assms by (cases w; cases cl) (simp_all add: balanced_deposit balanced_withdraw)

lemma total_successes_nonneg: "0 \<le> total ty (successes w [cl])"
proof (cases cl)
  case (Deposit x now)
  show ?thesis
  proof (cases "validate_amount x")
    case (Inr d)
    from validate_shape [OF Inr] obtain ca where "d = Finite False ca (- 2)" by blast
    with Deposit Inr show ?thesis by (simp add: total_single split: sum.splits)
  qed (use Deposit in \<open>simp split: sum.splits\<close>)
next
  case (Withdraw x now)
  show ?thesis
  proof (cases "validate_amount x")
    case (Inr d)
    from validate_shape [OF Inr] obtain ca where "d = Finite False ca (- 2)" by blast
    with Withdraw Inr show ?thesis by (simp add: total_single split: sum.splits)
  qed (use Withdraw in \<open>simp split: sum.splits\<close>)
qed

lemma total_step_mono:
  assumes "wf w"
  shows "total ty (history w) \<le> total ty (history (step w cl))"
  using total_successes_nonneg [of ty w cl] by (simp add: history_step [OF assms] total_append)

lemma balanced_run:
  assumes "balanced b0 w" and "b0 + total ''deposit'' (history (run cs w)) < 10 ^ 28"
  shows "balanced b0 (run cs w)"
  using assms(2)
proof (induction cs rule: rev_induct)
  case Nil
  with assms(1) show ?case by simp
next
  case (snoc cl cs)
  from assms(1) have "wf w" by (auto elim: balancedE)
  then have "wf (run cs w)" by (rule wf_run)
  from total_step_mono [OF this, of "''deposit''" cl] snoc.prems
  have "b0 + total ''deposit'' (history (run cs w)) < 10 ^ 28" by (simp add: run_snoc)
  from snoc.IH [OF this] snoc.prems show ?case by (simp add: run_snoc balanced_step)
qed

lemma signed_negative: "signed s c e m < 0 \<longleftrightarrow> s \<and> 0 < c"
  by (cases s; cases "c = 0") (simp_all add: signed_def mult_less_0_iff zero_less_mult_iff)

lemma dec_cmp_zero: "dec_cmp (Finite s c e) (Finite False 0 0) < 0 \<longleftrightarrow> s \<and> 0 < c"
proof -
  have "signed False 0 0 m = 0" for m by (simp add: signed_def)
  then show ?thesis using signed_negative [of s c e "min e 0"] by (simp add: Let_def)
qed

lemma cents_coeff_zero: "cents_coeff 0 e = 0"
  by (simp add: cents_coeff_def round_coeff_zero)

lemma nonnegative_text:
  assumes "lt_zero ib = Inr False" and "decimal_of_str ib = Inr (Finite s c e)"
  shows "s \<longrightarrow> c = 0"
proof (cases ib)
  case (PyInt n)
  with assms show ?thesis by (auto split: if_splits)
next
  case (PyBool b)
  with assms show ?thesis by simp
next
  case (PyFloat d)
  with assms show ?thesis by (auto simp: dec_cmp_zero simp del: dec_cmp.simps split: if_splits)
next
  case (PyDecimal d)
  with assms show ?thesis
    by (auto simp: dec_lt_def dec_cmp_zero simp del: dec_cmp.simps split: if_splits)
qed

lemma init_balance_shape:
  assumes "init acct ib h0 = (Inr a0, h1)" and "balance a0 \<noteq> NaN"
  shows "\<exists>s c. balance a0 = Finite s c (- 2) \<and> (s \<longrightarrow> c = 0)"
proof -
  from assms(1) obtain d where lt: "lt_zero ib = Inr False" and d: "decimal_of_str ib = Inr d"
    and q: "quantize d CURRENCY_PRECISION ROUND_HALF_UP = Inr (balance a0)"
    by (elim init_success)
  show ?thesis
  proof (cases d)
    case (Finite s c e)
    from nonnegative_text [OF lt d [unfolded Finite]] have "s \<longrightarrow> cents_coeff c e = 0"
      by (auto simp: cents_coeff_zero)
    moreover from q Finite have "balance a0 = Finite s (cents_coeff c e) (- 2)"
      by (simp add: quantize_cents split: if_splits)
    ultimately show ?thesis by blast
  next
    case (Infinity s)
    with q show ?thesis by (simp add: CURRENCY_PRECISION_def)
  next
    case NaN
    with q assms(2) show ?thesis by (simp add: CURRENCY_PRECISION_def)
  next
    case SNaN
    with q show ?thesis by (simp add: CURRENCY_PRECISION_def)
  qed
qed

lemma init_balanced:
  assumes "init acct ib h0 = (Inr a0, h1)" and "balance a0 \<noteq> NaN"
  shows "balanced (cents (balance a0)) (a0, h1)"
proof -
  from init_balance_shape [OF assms] obtain s c
    where b: "balance a0 = Finite s c (- 2)" and s: "s \<longrightarrow> c = 0" by blast
  from init_history [OF assms(1)] have "wf (a0, h1)" and "history (a0, h1) = []" by simp_all
  with b s show ?thesis
    by (intro balancedI [where s = s and c = c]) auto
qed

lemma validate_20: "validate_amount (Num (PyInt 20)) = Inr (Finite False 2000 (- 2))"
  by (simp add: validate_closed [OF small_int_prints] cents_coeff_def)

lemma validate_30: "validate_amount (Num (PyInt 30)) = Inr (Finite False 3000 (- 2))"
  by (simp add: validate_closed [OF small_int_prints] cents_coeff_def)

lemma run_scenario: "run scenario account_100 = account_160"
  by (simp add: scenario_def account_100_def account_160_def scenario_log_def
      deposit_def withdraw_def validate_50 validate_20 validate_30
      dec_add_cents dec_gt_cents dec_sub_cents fix_context_small record_transaction_def Let_def)

lemma history_account_160: "history account_160 = scenario_log"
  by (simp add: history_def contents_def list_at_def account_160_def scenario_log_def)

lemma init_account_100:
  "init digits_1_to_9 (PyInt 100) empty_store = (Inr (fst account_100), snd account_100)"
proof -
  have "length digits_1_to_9 = 9" by (simp add: digits_1_to_9_def)
  moreover have "list_all isdigit_char digits_1_to_9"
    using isdigit_digits_1_to_9 by (simp add: isdigit_def)
  ultimately show ?thesis
    by (simp add: init_100 empty_store_def account_100_def)
qed

lemma total_scenario:
  "total ''deposit'' scenario_log = 8000 \<and> total ''withdrawal'' scenario_log = 2000"
  by (simp add: total_def scenario_log_def)

text \<open>
  For an account whose initial balance is a number, and as long as the initial balance plus
  the deposits stays below \<open>10^26\<close>, the balance after any sequence of calls is at
  scale 2 and equals the initial balance plus the deposits minus the withdrawals of the
  history, in hundredths.
\<close>

theorem balance_is_sum_of_history:
  assumes "init acct ib h0 = (Inr a0, h1)" and "balance a0 \<noteq> NaN"
    and "cents (balance a0) + total ''deposit'' (history (run cs (a0, h1))) < 10 ^ 28"
  shows "scale2 (balance (fst (run cs (a0, h1))))
         \<and> cents (balance (fst (run cs (a0, h1)))) =
             cents (balance a0) + total ''deposit'' (history (run cs (a0, h1)))
               - total ''withdrawal'' (history (run cs (a0, h1)))"
proof -
  from init_balanced [OF assms(1,2)] assms(3)
  have "balanced (cents (balance a0)) (run cs (a0, h1))" by (rule balanced_run)
  then obtain s c where "balance (fst (run cs (a0, h1))) = Finite s c (- 2)" and "s \<longrightarrow> c = 0"
    and "int c = cents (balance a0) + total ''deposit'' (history (run cs (a0, h1)))
               - total ''withdrawal'' (history (run cs (a0, h1)))"
    by (auto elim: balancedE)
  then show ?thesis by auto
qed

theorem balance_is_sum_of_history_witness:
  "scale2 (balance (fst (run scenario account_100)))
   \<and> cents (balance (fst (run scenario account_100))) = 16000
   \<and> cents (balance (fst account_100)) = 10000
   \<and> total ''deposit'' (history (run scenario account_100)) = 8000
   \<and> total ''withdrawal'' (history (run scenario account_100)) = 2000"
proof -
  have b: "balance (fst account_100) = Finite False 10000 (- 2)"
    by (simp add: account_100_def)
  have h: "history (run scenario account_100) = scenario_log"
    by (simp add: run_scenario history_account_160)
  have bound: "cents (balance (fst account_100))
                 + total ''deposit'' (history (run scenario (fst account_100, snd account_100)))
               < 10 ^ 28"
    by (simp add: b h total_scenario)
  from balance_is_sum_of_history [OF init_account_100 _ bound]
  show ?thesis by (simp add: b h total_scenario)
qed

lemma ndigits_29: "ndigits 10000000000000000000000000001 = 29"
proof -
  have "ndigits 10000000000000000000000000001 \<le> 29"
    by (simp add: ndigits_le_iff)
  moreover have "\<not> ndigits 10000000000000000000000000001 \<le> 28"
    by (simp add: ndigits_le_iff)
  ultimately show ?thesis by simp
qed

lemma ndigits_28: "ndigits 1000000000000000000000000000 = 28"
proof -
  have "ndigits 1000000000000000000000000000 \<le> 28"
    by (simp add: ndigits_le_iff)
  moreover have "\<not> ndigits 1000000000000000000000000000 \<le> 27"
    by (simp add: ndigits_le_iff)
  ultimately show ?thesis by simp
qed

lemma fix_context_29:
  "fix_context False 10000000000000000000000000001 (- 2) =
     Inr (Finite False 1000000000000000000000000000 (- 1))"
  by (simp add: fix_context_def ndigits_29 ndigits_28 round_coeff_def Let_def
      prec_def Etop_def Etiny_def Emax_def Emin_def)

lemma deposit_near_limit:
  "run [Deposit (Num (PyDecimal (Finite False 2 (- 2)))) ''2024-01-01T09:00:00''] account_near_limit =
     (\<lparr>account_number = digits_1_to_9, balance = Finite False 1000000000000000000000000000 (- 1),
       transaction_history = 0\<rparr>,
      \<lparr>dicts = [\<lparr>ttype = ''deposit'', amount = Finite False 2 (- 2),
                 timestamp = ''2024-01-01T09:00:00''\<rparr>],
       lists = [[0]]\<rparr>)"
  by (simp add: account_near_limit_def deposit_def validate_scale2 dec_add_cents fix_context_29
      record_transaction_def Let_def)

lemma init_near_limit:
  "init digits_1_to_9 (PyDecimal (Finite False 9999999999999999999999999999 (- 2))) empty_store =
     (Inr (fst account_near_limit), snd account_near_limit)"
proof -
  have "length digits_1_to_9 = 9" and "digits_1_to_9 \<noteq> []" by (simp_all add: digits_1_to_9_def)
  moreover have "list_all isdigit_char digits_1_to_9"
    using isdigit_digits_1_to_9 by (simp add: isdigit_def)
  ultimately show ?thesis
    by (simp add: init_identifier dec_lt_def dec_cmp_zero quantize_cents cents_coeff_def
        empty_store_def account_near_limit_def del: dec_cmp.simps)
qed

text \<open>
  C1. The account constructed with the initial balance
  \<^verbatim>\<open>Decimal('99999999999999999999999999.99')\<close> takes
  \<^verbatim>\<open>deposit(Decimal('0.02'))\<close>: the call succeeds and the history holds one deposit of
  \<open>0.02\<close>, but the balance is \<open>100000000000000000000000000.0\<close>, one hundredth less
  than the initial balance plus the deposit. The exact sum has 29 digits, and
  \<^verbatim>\<open>self._balance += decimal_amount\<close> rounds it to the 28 digits of the default
  context.
\<close>

theorem deposit_near_limit_loses_cent:
  "init digits_1_to_9 (PyDecimal (Finite False 9999999999999999999999999999 (- 2))) empty_store =
     (Inr (fst account_near_limit), snd account_near_limit)
   \<and> balance (fst account_near_limit) = Finite False 9999999999999999999999999999 (- 2)
   \<and> balance (fst (run [Deposit (Num (PyDecimal (Finite False 2 (- 2)))) ''2024-01-01T09:00:00'']
                    account_near_limit)) =
       Finite False 1000000000000000000000000000 (- 1)
   \<and> map amount (history (run [Deposit (Num (PyDecimal (Finite False 2 (- 2)))) ''2024-01-01T09:00:00'']
                    account_near_limit)) = [Finite False 2 (- 2)]
   \<and> cents (Finite False 1000000000000000000000000000 (- 1)) \<noteq>
       cents (Finite False 9999999999999999999999999999 (- 2)) + cents (Finite False 2 (- 2))"
proof -
  have "balance (fst account_near_limit) = Finite False 9999999999999999999999999999 (- 2)"
    by (simp add: account_near_limit_def)
  moreover have "balance (fst (run [Deposit (Num (PyDecimal (Finite False 2 (- 2))))
                    ''2024-01-01T09:00:00''] account_near_limit)) =
       Finite False 1000000000000000000000000000 (- 1)"
    by (simp only: deposit_near_limit) simp
  moreover have "map amount (history (run [Deposit (Num (PyDecimal (Finite False 2 (- 2))))
                    ''2024-01-01T09:00:00''] account_near_limit)) = [Finite False 2 (- 2)]"
    by (simp only: deposit_near_limit) (simp add: history_def contents_def list_at_def)
  moreover have "cents (Finite False 1000000000000000000000000000 (- 1)) \<noteq>
       cents (Finite False 9999999999999999999999999999 (- 2)) + cents (Finite False 2 (- 2))"
    by (simp add: signed_def)
  ultimately show ?thesis using init_near_limit by simp
qed

text \<open>In hundredths: the balance, the initial balance and the deposits of the history.\<close>

theorem deposit_near_limit_loses_cent_witness:
  "cents (balance (fst (run [Deposit (Num (PyDecimal (Finite False 2 (- 2)))) ''2024-01-01T09:00:00'']
                    account_near_limit))) = 10 ^ 28
   \<and> cents (balance (fst account_near_limit)) = 10 ^ 28 - 1
   \<and> sum_list (map cents (map amount (history
         (run [Deposit (Num (PyDecimal (Finite False 2 (- 2)))) ''2024-01-01T09:00:00'']
            account_near_limit)))) = 2"
  using deposit_near_limit_loses_cent by (simp add: signed_def)

section \<open>The copy of the history\<close>







end
